theory Spec2Isabelle
  imports Complex_Main
begin

section \<open>JavaScript values, errors and responses\<close>

text \<open>
  The handlers of \<^verbatim>\<open>server.js\<close>, \<^verbatim>\<open>routes/carBuilds.js\<close> and \<^verbatim>\<open>routes/follows.js\<close>
  read scalar values out of a parsed request body and bind them to SQL statements. A scalar
  is \<^verbatim>\<open>undefined\<close> (the field is absent), \<^verbatim>\<open>null\<close>, a boolean, a number or a string. Numbers
  are the rationals they denote (no request body can hold NaN).
\<close>

datatype jsval = JUndefined | JNull | JBool bool | JNum rat | JStr string

text \<open>\<^verbatim>\<open>!v\<close> is the negation of \<open>truthy v\<close>.\<close>

fun truthy :: "jsval \<Rightarrow> bool" where
  "truthy JUndefined = False"
| "truthy JNull = False"
| "truthy (JBool b) = b"
| "truthy (JNum r) = (r \<noteq> 0)"
| "truthy (JStr s) = (s \<noteq> [])"

text \<open>\<^verbatim>\<open>a || b\<close> and \<^verbatim>\<open>a ?? b\<close>.\<close>

definition js_or :: "jsval \<Rightarrow> jsval \<Rightarrow> jsval" where
  "js_or a b = (if truthy a then a else b)"

definition nullish :: "jsval \<Rightarrow> jsval \<Rightarrow> jsval" where
  "nullish a b = (if a = JUndefined \<or> a = JNull then b else a)"

text \<open>
  \<^verbatim>\<open>ToNumber\<close>, as the comparisons \<^verbatim>\<open>rating < 1\<close> and \<^verbatim>\<open>rating > 5\<close> apply it to their left
  operand; \<open>None\<close> is NaN. The reading of a string as a number is the runtime's
  (\<^verbatim>\<open>StringToNumber\<close>) and is a parameter here.
\<close>

fun ToNumber :: "(string \<Rightarrow> rat option) \<Rightarrow> jsval \<Rightarrow> rat option" where
  "ToNumber sn JUndefined = None"
| "ToNumber sn JNull = Some 0"
| "ToNumber sn (JBool b) = Some (if b then 1 else 0)"
| "ToNumber sn (JNum r) = Some r"
| "ToNumber sn (JStr s) = sn s"

text \<open>\<^verbatim>\<open>v < n\<close> and \<^verbatim>\<open>v > n\<close> for a number \<open>n\<close>: false as soon as one side is NaN.\<close>

definition js_lt :: "(string \<Rightarrow> rat option) \<Rightarrow> jsval \<Rightarrow> rat \<Rightarrow> bool" where
  "js_lt sn v n = (case ToNumber sn v of None \<Rightarrow> False | Some r \<Rightarrow> r < n)"

definition js_gt :: "(string \<Rightarrow> rat option) \<Rightarrow> jsval \<Rightarrow> rat \<Rightarrow> bool" where
  "js_gt sn v n = (case ToNumber sn v of None \<Rightarrow> False | Some r \<Rightarrow> n < r)"

text \<open>String methods: \<^verbatim>\<open>s.startsWith(p)\<close>, \<^verbatim>\<open>s.includes(p)\<close>, \<^verbatim>\<open>s.trim()\<close> (on ASCII blanks).\<close>

definition startsWith :: "string \<Rightarrow> string \<Rightarrow> bool" where
  "startsWith s p = (take (length p) s = p)"

fun js_includes :: "string \<Rightarrow> string \<Rightarrow> bool" where
  "js_includes [] p = (p = [])"
| "js_includes (c # cs) p = (startsWith (c # cs) p \<or> js_includes cs p)"

definition is_space :: "char \<Rightarrow> bool" where
  "is_space c = (c = CHR '' '' \<or> c = CHR 0x09 \<or> c = CHR 0x0A \<or> c = CHR 0x0B
                 \<or> c = CHR 0x0C \<or> c = CHR 0x0D)"

definition trim :: "string \<Rightarrow> string" where
  "trim s = rev (dropWhile is_space (rev (dropWhile is_space s)))"

text \<open>
  A thrown error carries a \<^verbatim>\<open>code\<close> (empty when the error has none) and a \<^verbatim>\<open>message\<close>.
\<close>

datatype js_error = JsError string string

fun error_code :: "js_error \<Rightarrow> string" where
  "error_code (JsError c m) = c"

fun error_message :: "js_error \<Rightarrow> string" where
  "error_message (JsError c m) = m"

text \<open>
  A response: the HTTP status, the \<^verbatim>\<open>success\<close> flag and the \<^verbatim>\<open>message\<close> of its JSON body
  (empty when the body has none). Payload fields of the body are left out.
\<close>

record response =
  status :: nat
  success :: bool
  message :: string

definition respond :: "nat \<Rightarrow> bool \<Rightarrow> string \<Rightarrow> response" where
  "respond c ok m = \<lparr>status = c, success = ok, message = m\<rparr>"

section \<open>The relational store\<close>

text \<open>
  The tables the handlers in scope write, with the columns their statements name. A data
  column holds the value that was bound to it; the conversions of the column types are not
  modelled. Surrogate keys of child rows, which no handler in scope reads, are left out.
\<close>

record registration_row =
  reg_id :: nat
  reg_event_id :: jsval
  reg_user_id :: jsval
  reg_name :: string
  reg_email :: jsval
  reg_phone :: jsval

record car =
  car_make :: jsval
  car_model :: jsval
  car_year :: jsval
  car_color :: jsval
  car_mileage :: jsval
  car_modified :: jsval

text \<open>A row of \<^verbatim>\<open>registered_cars\<close>: the registration id and the six bound car values.\<close>

type_synonym car_row = "nat \<times> car"

record build_row =
  build_id :: nat
  build_user_id :: nat
  ownership_status :: jsval
  car_name :: jsval
  build_model :: jsval
  description :: jsval
  body_style :: jsval
  cover_image :: jsval
  cover_image2 :: jsval

text \<open>A row of \<^verbatim>\<open>build_gallery\<close>: \<^verbatim>\<open>(build_id, image_url)\<close>.\<close>

type_synonym gallery_row = "nat \<times> string"

record mod_row =
  mod_build_id :: nat
  category :: jsval
  sub_category :: jsval
  mod_name :: jsval
  image_url :: jsval
  mod_note :: jsval

record review_row =
  review_id :: nat
  review_business_id :: nat
  review_user_id :: jsval
  review_rating :: jsval
  review_comment :: jsval

record user_row =
  user_id :: nat
  display_name :: jsval
  bio :: jsval
  avatar_url :: jsval

record store =
  event_registrations :: "registration_row list"
  registered_cars :: "car_row list"
  builds :: "build_row list"
  build_gallery :: "gallery_row list"
  build_mods :: "mod_row list"
  business_reviews :: "review_row list"
  follows :: "(nat \<times> nat) list"
  users :: "user_row list"

text \<open>The statements that write, by verb and table.\<close>

datatype sql =
    INSERT_event_registrations | INSERT_registered_cars
  | INSERT_builds | UPDATE_builds | UPDATE_builds_covers
  | DELETE_build_gallery | INSERT_build_gallery
  | DELETE_build_mods | INSERT_build_mods
  | INSERT_business_reviews | UPDATE_business_reviews
  | INSERT_follows | DELETE_follows
  | UPDATE_users

text \<open>
  What a request meets outside the source files: the identifier the store assigns to an
  inserted parent row (\<^verbatim>\<open>insertId\<close>; 0 when the insert reports none), the statements the
  store refuses for reasons the schema holds (the schema is not part of the repository), the
  runtime's reading of strings as numbers, the clock, and a failure of the file system.
\<close>

record env =
  insertId :: nat
  refuses :: "sql \<Rightarrow> jsval list \<Rightarrow> js_error option"
  StringToNumber :: "string \<Rightarrow> rat option"
  now :: string
  fs_failure :: "js_error option"

text \<open>
  \<^verbatim>\<open>execute\<close> of mysql2 (on the pool or on a connection) prepares the statement: before
  anything is sent it throws a TypeError when a bind parameter is \<^verbatim>\<open>undefined\<close>. \<^verbatim>\<open>query\<close>
  has no such check (an \<^verbatim>\<open>undefined\<close> parameter is written as NULL). Both return the
  error the statement ends with, if any.
\<close>

definition bind_error :: "jsval list \<Rightarrow> js_error option" where
  "bind_error ps =
     (if JUndefined \<in> set ps
      then Some (JsError [] ''Bind parameters must not contain undefined. To pass SQL NULL specify JS null'')
      else None)"

definition execute :: "env \<Rightarrow> sql \<Rightarrow> jsval list \<Rightarrow> js_error option" where
  "execute e q ps = (case bind_error ps of Some er \<Rightarrow> Some er | None \<Rightarrow> refuses e q ps)"

definition query :: "env \<Rightarrow> sql \<Rightarrow> jsval list \<Rightarrow> js_error option" where
  "query e q ps = refuses e q ps"

definition num :: "nat \<Rightarrow> jsval" where
  "num n = JNum (of_nat n)"

text \<open>
  An INSERT into a table with a unique key: the store answers a row that repeats the key
  \<open>k\<close> with the error \<^verbatim>\<open>ER_DUP_ENTRY\<close>, whose message names the key; \<open>refuses\<close> speaks
  for the rows that pass.
\<close>

definition ER_DUP_ENTRY :: "string \<Rightarrow> js_error" where
  "ER_DUP_ENTRY k =
     JsError ''ER_DUP_ENTRY'' (''Duplicate entry for key '' @ [CHR 0x27] @ k @ [CHR 0x27])"

definition execute_unique :: "env \<Rightarrow> sql \<Rightarrow> jsval list \<Rightarrow> bool \<Rightarrow> string \<Rightarrow> js_error option" where
  "execute_unique e q ps repeats k =
     (case bind_error ps of
        Some er \<Rightarrow> Some er
      | None \<Rightarrow> if repeats then Some (ER_DUP_ENTRY k) else refuses e q ps)"

section \<open>POST /api/register-event\<close>

record register_body =
  firstName :: "string option"
  lastName :: "string option"
  email :: jsval
  phone :: jsval
  eventId :: jsval
  cars :: "car list option"
  userId :: jsval

text \<open>
  Modelled from the spec: the table definitions are not in the repository. The spec's data
  model has at most one registration per (event, email) pair, enforced by a uniqueness
  constraint; the handler names it \<^verbatim>\<open>event_registrations.event_id_email_unique\<close>. A unique
  key never matches on NULL.
\<close>

definition event_id_email_unique :: "store \<Rightarrow> jsval \<Rightarrow> jsval \<Rightarrow> bool" where
  "event_id_email_unique st ev em =
     (ev = JNull \<or> em = JNull \<or>
      filter (\<lambda>r. reg_event_id r = ev \<and> reg_email r = em) (event_registrations st) = [])"

text \<open>\<^verbatim>\<open>`${firstName || ''} ${lastName || ''}`.trim()\<close>\<close>

definition registrantName :: "register_body \<Rightarrow> string" where
  "registrantName b =
     trim ((case firstName b of None \<Rightarrow> [] | Some f \<Rightarrow> f) @ '' '' @
           (case lastName b of None \<Rightarrow> [] | Some l \<Rightarrow> l))"

definition insert_registration :: "env \<Rightarrow> register_body \<Rightarrow> store \<Rightarrow> js_error + store" where
  "insert_registration e b st =
     (case execute_unique e INSERT_event_registrations
             [eventId b, userId b, JStr (registrantName b), email b, phone b]
             (\<not> event_id_email_unique st (eventId b) (email b))
             ''event_registrations.event_id_email_unique'' of
        Some er \<Rightarrow> Inl er
      | None \<Rightarrow>
          Inr (st\<lparr>event_registrations := event_registrations st @
                 [\<lparr>reg_id = insertId e, reg_event_id = eventId b, reg_user_id = userId b,
                   reg_name = registrantName b, reg_email = email b, reg_phone = phone b\<rparr>]\<rparr>))"

text \<open>The loop \<^verbatim>\<open>for (const car of cars)\<close>: one INSERT per car, stopping at the first error.\<close>

fun insert_cars :: "env \<Rightarrow> nat \<Rightarrow> car list \<Rightarrow> store \<Rightarrow> js_error + store" where
  "insert_cars e rid [] st = Inr st"
| "insert_cars e rid (c # cs) st =
     (case execute e INSERT_registered_cars
             [num rid, car_make c, car_model c, car_year c, car_color c, car_mileage c,
              car_modified c] of
        Some er \<Rightarrow> Inl er
      | None \<Rightarrow> insert_cars e rid cs (st\<lparr>registered_cars := registered_cars st @ [(rid, c)]\<rparr>))"

text \<open>The statements between \<^verbatim>\<open>beginTransaction\<close> and \<^verbatim>\<open>commit\<close>.\<close>

definition register_event_try :: "env \<Rightarrow> register_body \<Rightarrow> store \<Rightarrow> js_error + store" where
  "register_event_try e b st =
     (case insert_registration e b st of
        Inl er \<Rightarrow> Inl er
      | Inr st1 \<Rightarrow>
          if insertId e = 0 then Inl (JsError [] ''Failed to create registration entry.'')
          else (case cars b of
                  None \<Rightarrow> Inr st1
                | Some cs \<Rightarrow> insert_cars e (insertId e) cs st1))"

text \<open>The \<^verbatim>\<open>catch\<close> block's choice of message.\<close>

definition registration_errorMessage :: "js_error \<Rightarrow> string" where
  "registration_errorMessage er =
     (if error_code er = ''ER_DUP_ENTRY'' then
        (if js_includes (error_message er) ''event_registrations.event_id_email_unique''
         then ''This email is already registered for this event.''
         else ''A duplicate entry occurred. Please check your input.'')
      else if js_includes (error_message er) ''Table 'registered_cars' doesn't exist''
      then ''Registration failed: The 'registered_cars' table is missing on the server.''
      else if js_includes (error_message er) ''Unknown column''
      then ''Registration failed: There's a mismatch in table columns. Please check server logs.''
      else ''Registration failed due to a server error.'')"

text \<open>
  The handler. An error anywhere in the \<^verbatim>\<open>try\<close> block rolls the transaction back: the
  store is the one the request found. Every error is answered with status 500.
\<close>

definition POST_register_event :: "env \<Rightarrow> store \<Rightarrow> register_body \<Rightarrow> response \<times> store" where
  "POST_register_event e st b =
     (if \<not> truthy (userId b)
      then (respond 400 False ''User ID is missing. Cannot complete registration.'', st)
      else (case register_event_try e b st of
              Inr st' \<Rightarrow> (respond 200 True ''Registration successful!'', st')
            | Inl er \<Rightarrow> (respond 500 False (registration_errorMessage er), st)))"

section \<open>Authentication middleware\<close>

text \<open>
  The session cookie as \<^verbatim>\<open>jwt.verify\<close> finds it: absent, refused (wrong signature or
  expired), or valid with the \<^verbatim>\<open>id\<close> of its payload. \<^verbatim>\<open>ensureAuthenticated\<close> guards the
  build and follow routes, \<^verbatim>\<open>authenticateToken\<close> the routes of \<^verbatim>\<open>server.js\<close> that name it.
\<close>

datatype cookie_token = NoToken | BadToken | GoodToken nat

fun ensureAuthenticated :: "cookie_token \<Rightarrow> response + nat" where
  "ensureAuthenticated NoToken = Inl (respond 401 False ''Token required'')"
| "ensureAuthenticated BadToken = Inl (respond 401 False ''Invalid or expired token'')"
| "ensureAuthenticated (GoodToken uid) = Inr uid"

fun authenticateToken :: "cookie_token \<Rightarrow> response + nat" where
  "authenticateToken NoToken = Inl (respond 401 False ''Token required'')"
| "authenticateToken BadToken = Inl (respond 403 False ''Invalid or expired token'')"
| "authenticateToken (GoodToken uid) = Inr uid"

section \<open>Build requests\<close>

text \<open>
  A multipart text field that carries JSON: absent, the empty string, text that
  \<^verbatim>\<open>JSON.parse\<close> refuses, or the parsed array. The entries of \<^verbatim>\<open>mods\<close> are objects, those
  of \<^verbatim>\<open>keepCovers\<close> strings, those of \<^verbatim>\<open>keepGallery\<close> strings or \<^verbatim>\<open>null\<close> (\<open>None\<close>). (Text
  that parses to something else is outside this model.)
\<close>

datatype 'a json_text = Missing | EmptyText | Malformed | Parsed 'a

text \<open>\<^verbatim>\<open>JSON.parse(mods)\<close> with the default \<^verbatim>\<open>mods = '[]'\<close> of the destructuring (POST).\<close>

fun parse_default :: "'a list json_text \<Rightarrow> 'a list option" where
  "parse_default Missing = Some []"
| "parse_default EmptyText = None"
| "parse_default Malformed = None"
| "parse_default (Parsed v) = Some v"

text \<open>\<^verbatim>\<open>JSON.parse(field || '[]')\<close> (PUT).\<close>

fun parse_or_empty :: "'a list json_text \<Rightarrow> 'a list option" where
  "parse_or_empty Missing = Some []"
| "parse_or_empty EmptyText = Some []"
| "parse_or_empty Malformed = None"
| "parse_or_empty (Parsed v) = Some v"

text \<open>An entry of the \<^verbatim>\<open>mods\<close> array, with the properties the handlers read.\<close>

record mod_entry =
  main :: jsval
  sub :: jsval
  name :: jsval
  details :: jsval
  hasImage :: jsval
  entry_image_url :: jsval
  deleteImage :: jsval

text \<open>
  The text fields of the form (absent or a string), and the file names multer stored for
  the three file fields, in the order the files were transmitted.
\<close>

record build_request =
  req_ownership :: "string option"
  req_car_name :: "string option"
  req_model :: "string option"
  req_description :: "string option"
  req_bodyStyle :: "string option"
  req_mods :: "mod_entry list json_text"
  req_keepCovers :: "string list json_text"
  req_keepGallery :: "string option list json_text"
  coverImages :: "string list"
  galleryImages :: "string list"
  modImages :: "string list"

fun form :: "string option \<Rightarrow> jsval" where
  "form None = JUndefined"
| "form (Some s) = JStr s"

definition upload_url :: "string \<Rightarrow> string" where
  "upload_url f = ''/uploads/'' @ f"

section \<open>POST /api/builds\<close>

text \<open>
  The handler runs its statements on the pool, outside any transaction: each INSERT is
  committed on its own, and an error leaves the store as the statements before it made it.
  The two loops return the error that stopped them (if any) with the store reached.
\<close>

fun insert_gallery :: "env \<Rightarrow> nat \<Rightarrow> string list \<Rightarrow> store \<Rightarrow> js_error option \<times> store" where
  "insert_gallery e bid [] st = (None, st)"
| "insert_gallery e bid (u # us) st =
     (case execute e INSERT_build_gallery [num bid, JStr u] of
        Some er \<Rightarrow> (Some er, st)
      | None \<Rightarrow> insert_gallery e bid us (st\<lparr>build_gallery := build_gallery st @ [(bid, u)]\<rparr>))"

text \<open>\<^verbatim>\<open>for (const [i, mod] of parsedModsArray.entries())\<close>: entry \<open>i\<close> takes file \<open>i\<close>.\<close>

fun insert_mods :: "env \<Rightarrow> nat \<Rightarrow> string list \<Rightarrow> nat \<Rightarrow> mod_entry list \<Rightarrow> store
                    \<Rightarrow> js_error option \<times> store" where
  "insert_mods e bid files i [] st = (None, st)"
| "insert_mods e bid files i (m # ms) st =
     (let imageUrl = (if i < length files then JStr (upload_url (files ! i)) else JNull) in
      case execute e INSERT_build_mods
             [num bid, main m, js_or (sub m) JNull, name m, imageUrl, js_or (details m) JNull] of
        Some er \<Rightarrow> (Some er, st)
      | None \<Rightarrow>
          insert_mods e bid files (Suc i) ms
            (st\<lparr>build_mods := build_mods st @
               [\<lparr>mod_build_id = bid, category = main m, sub_category = js_or (sub m) JNull,
                 mod_name = name m, image_url = imageUrl,
                 mod_note = js_or (details m) JNull\<rparr>]\<rparr>))"

definition POST_build :: "env \<Rightarrow> store \<Rightarrow> cookie_token \<Rightarrow> build_request \<Rightarrow> response \<times> store" where
  "POST_build e st tok r =
     (case ensureAuthenticated tok of
        Inl resp \<Rightarrow> (resp, st)
      | Inr uid \<Rightarrow>
         (case parse_default (req_mods r) of
            None \<Rightarrow> (respond 400 False ''Bad mods JSON'', st)
          | Some parsedModsArray \<Rightarrow>
             (let ownership = (case req_ownership r of None \<Rightarrow> JStr ''current'' | Some s \<Rightarrow> JStr s);
                  descr = (case req_description r of None \<Rightarrow> JNull | Some s \<Rightarrow> JStr s);
                  bodyStyle = (case req_bodyStyle r of None \<Rightarrow> JNull | Some s \<Rightarrow> JStr s);
                  coverImage = (case coverImages r of f # _ \<Rightarrow> JStr (upload_url f) | [] \<Rightarrow> JNull);
                  coverImage2 = (case coverImages r of _ # f # _ \<Rightarrow> JStr (upload_url f) | _ \<Rightarrow> JNull)
              in case execute e INSERT_builds
                        [num uid, ownership, form (req_car_name r), form (req_model r), descr,
                         bodyStyle, coverImage, coverImage2] of
                   Some er \<Rightarrow> (respond 500 False ''Server error'', st)
                 | None \<Rightarrow>
                    (let buildId = insertId e;
                         st1 = st\<lparr>builds := builds st @
                                 [\<lparr>build_id = buildId, build_user_id = uid,
                                   ownership_status = ownership, car_name = form (req_car_name r),
                                   build_model = form (req_model r), description = descr,
                                   body_style = bodyStyle, cover_image = coverImage,
                                   cover_image2 = coverImage2\<rparr>]\<rparr>
                     in case insert_gallery e buildId (map upload_url (galleryImages r)) st1 of
                          (Some er, st2) \<Rightarrow> (respond 500 False ''Server error'', st2)
                        | (None, st2) \<Rightarrow>
                           (case insert_mods e buildId (modImages r) 0 parsedModsArray st2 of
                              (Some er, st3) \<Rightarrow> (respond 500 False ''Server error'', st3)
                            | (None, st3) \<Rightarrow> (respond 201 True [], st3))))))"

section \<open>PUT /api/builds/:id\<close>

text \<open>
  The image reference of a re-inserted mod. \<open>imgIdx\<close> counts the uploaded mod files
  consumed so far; \<^verbatim>\<open>newModFiles[imgIdx]\<close> is \<^verbatim>\<open>undefined\<close> from the end of the array on.
\<close>

definition takes_file :: "string list \<Rightarrow> nat \<Rightarrow> mod_entry \<Rightarrow> bool" where
  "takes_file newModFiles imgIdx m = (truthy (hasImage m) \<and> imgIdx < length newModFiles)"

definition mod_image_url :: "string list \<Rightarrow> nat \<Rightarrow> mod_entry \<Rightarrow> jsval" where
  "mod_image_url newModFiles imgIdx m =
     (let fallback = nullish (entry_image_url m) JNull in
      if takes_file newModFiles imgIdx m then JStr (upload_url (newModFiles ! imgIdx))
      else if \<not> truthy (hasImage m) \<and> truthy fallback then fallback
      else JNull)"

definition reinserted_row :: "nat \<Rightarrow> string list \<Rightarrow> nat \<Rightarrow> mod_entry \<Rightarrow> mod_row" where
  "reinserted_row buildId newModFiles imgIdx m =
     \<lparr>mod_build_id = buildId,
      category = nullish (main m) (JStr []),
      sub_category = nullish (sub m) (JStr []),
      mod_name = nullish (name m) (JStr []),
      image_url = mod_image_url newModFiles imgIdx m,
      mod_note = nullish (details m) (JStr [])\<rparr>"

text \<open>The loop \<^verbatim>\<open>for (const m of modsArr)\<close> with its counter \<^verbatim>\<open>imgIdx\<close>.\<close>

fun reinsert_mods :: "env \<Rightarrow> nat \<Rightarrow> string list \<Rightarrow> nat \<Rightarrow> mod_entry list \<Rightarrow> store
                      \<Rightarrow> js_error + store" where
  "reinsert_mods e buildId newModFiles imgIdx [] st = Inr st"
| "reinsert_mods e buildId newModFiles imgIdx (m # ms) st =
     (let row = reinserted_row buildId newModFiles imgIdx m in
      case query e INSERT_build_mods
             [num buildId, category row, sub_category row, mod_name row, mod_note row,
              image_url row] of
        Some er \<Rightarrow> Inl er
      | None \<Rightarrow>
          reinsert_mods e buildId newModFiles
            (if takes_file newModFiles imgIdx m then imgIdx + 1 else imgIdx) ms
            (st\<lparr>build_mods := build_mods st @ [row]\<rparr>))"

text \<open>\<^verbatim>\<open>allCovers[i] || null\<close>\<close>

definition cover_at :: "string list \<Rightarrow> nat \<Rightarrow> jsval" where
  "cover_at allCovers i =
     (if i < length allCovers \<and> allCovers ! i \<noteq> [] then JStr (allCovers ! i) else JNull)"

text \<open>
  \<^verbatim>\<open>DELETE FROM build_gallery WHERE build_id = ? AND image_url NOT IN (?)\<close>, bound to the
  retain list, or to \<^verbatim>\<open>['__NONE__']\<close> when the retain list is empty. \<^verbatim>\<open>query\<close> writes the
  array out as the list of its elements, a \<^verbatim>\<open>null\<close> as NULL.
\<close>

definition not_in_list :: "string option list \<Rightarrow> string option list" where
  "not_in_list keepGalleryArr =
     (if keepGalleryArr \<noteq> [] then keepGalleryArr else [Some ''__NONE__''])"

fun sql_value :: "string option \<Rightarrow> jsval" where
  "sql_value None = JNull"
| "sql_value (Some s) = JStr s"

text \<open>
  SQL's \<^verbatim>\<open>x NOT IN (v1, ..., vn)\<close> for a column value \<open>x\<close> that is not NULL: false when \<open>x\<close>
  equals one of the values, unknown when it equals none and one of them is NULL, true
  otherwise. The DELETE removes the rows for which it is true.
\<close>

definition sql_not_in :: "string \<Rightarrow> string option list \<Rightarrow> bool" where
  "sql_not_in x vs = (Some x \<notin> set vs \<and> None \<notin> set vs)"

definition delete_gallery :: "nat \<Rightarrow> string option list \<Rightarrow> gallery_row list \<Rightarrow> gallery_row list" where
  "delete_gallery buildId keepGalleryArr rows =
     filter (\<lambda>g. \<not> (fst g = buildId \<and> sql_not_in (snd g) (not_in_list keepGalleryArr))) rows"

text \<open>
  The statements between \<^verbatim>\<open>beginTransaction\<close> and \<^verbatim>\<open>commit\<close> run one after the other;
  the first error is thrown to the \<^verbatim>\<open>catch\<close> block.
\<close>

fun run_steps :: "(store \<Rightarrow> js_error + store) list \<Rightarrow> store \<Rightarrow> js_error + store" where
  "run_steps [] st = Inr st"
| "run_steps (f # fs) st = (case f st of Inl er \<Rightarrow> Inl er | Inr st1 \<Rightarrow> run_steps fs st1)"

text \<open>
  Ownership check: \<^verbatim>\<open>SELECT user_id FROM builds WHERE id = ? FOR UPDATE\<close>, then
  \<^verbatim>\<open>if (!ownerRows.length || ownerRows[0].user_id !== userId) throw new Error('NOT_OWNER')\<close>.
\<close>

definition ownership_check :: "nat \<Rightarrow> nat \<Rightarrow> store \<Rightarrow> js_error + store" where
  "ownership_check buildId uid st =
     (case filter (\<lambda>b. build_id b = buildId) (builds st) of
        [] \<Rightarrow> Inl (JsError [] ''NOT_OWNER'')
      | owner # _ \<Rightarrow>
          if build_user_id owner \<noteq> uid then Inl (JsError [] ''NOT_OWNER'') else Inr st)"

text \<open>Update main builds row: the scalar fields, with their \<^verbatim>\<open>??\<close> defaults.\<close>

definition update_main_row :: "env \<Rightarrow> nat \<Rightarrow> build_request \<Rightarrow> store \<Rightarrow> js_error + store" where
  "update_main_row e buildId r st =
     (let ownershipStatus = (case req_ownership r of None \<Rightarrow> JStr [] | Some s \<Rightarrow> JStr s);
          carName = (case req_car_name r of None \<Rightarrow> JStr [] | Some s \<Rightarrow> JStr s);
          modelName = (case req_model r of None \<Rightarrow> JStr [] | Some s \<Rightarrow> JStr s);
          bodyStyle = (case req_bodyStyle r of None \<Rightarrow> JNull | Some s \<Rightarrow> JStr s);
          descr = (case req_description r of None \<Rightarrow> JStr [] | Some s \<Rightarrow> JStr s)
      in case query e UPDATE_builds
                [ownershipStatus, carName, modelName, bodyStyle, descr, num buildId] of
           Some er \<Rightarrow> Inl er
         | None \<Rightarrow>
             Inr (st\<lparr>builds := map (\<lambda>b. if build_id b = buildId
                           then b\<lparr>ownership_status := ownershipStatus, car_name := carName,
                                  build_model := modelName, body_style := bodyStyle,
                                  description := descr\<rparr>
                           else b) (builds st)\<rparr>))"

text \<open>The cover columns: kept URLs, then the new uploads, the first two of them.\<close>

definition update_covers :: "env \<Rightarrow> nat \<Rightarrow> build_request \<Rightarrow> string list \<Rightarrow> store \<Rightarrow> js_error + store" where
  "update_covers e buildId r keepCoversArr st =
     (let allCovers = keepCoversArr @ map upload_url (coverImages r);
          cover1 = cover_at allCovers 0;
          cover2 = cover_at allCovers 1
      in case query e UPDATE_builds_covers [cover1, cover2, num buildId] of
           Some er \<Rightarrow> Inl er
         | None \<Rightarrow>
             Inr (st\<lparr>builds := map (\<lambda>b. if build_id b = buildId
                           then b\<lparr>cover_image := cover1, cover_image2 := cover2\<rparr>
                           else b) (builds st)\<rparr>))"

text \<open>Reconcile \<^verbatim>\<open>build_gallery\<close>: the DELETE, then one INSERT of all new rows (if any).\<close>

definition reconcile_gallery :: "env \<Rightarrow> nat \<Rightarrow> string option list \<Rightarrow> store \<Rightarrow> js_error + store" where
  "reconcile_gallery e buildId keepGalleryArr st =
     (case query e DELETE_build_gallery
             (num buildId # map sql_value (not_in_list keepGalleryArr)) of
        Some er \<Rightarrow> Inl er
      | None \<Rightarrow> Inr (st\<lparr>build_gallery := delete_gallery buildId keepGalleryArr (build_gallery st)\<rparr>))"

definition insert_new_gallery :: "env \<Rightarrow> nat \<Rightarrow> string list \<Rightarrow> store \<Rightarrow> js_error + store" where
  "insert_new_gallery e buildId newGalleryFiles st =
     (let galleryRows = map (\<lambda>f. (buildId, upload_url f)) newGalleryFiles in
      if newGalleryFiles \<noteq> [] then
        (case query e INSERT_build_gallery
                (concat (map (\<lambda>g. [num (fst g), JStr (snd g)]) galleryRows)) of
           Some er \<Rightarrow> Inl er
         | None \<Rightarrow> Inr (st\<lparr>build_gallery := build_gallery st @ galleryRows\<rparr>))
      else Inr st)"

text \<open>Reconcile \<^verbatim>\<open>build_mods\<close>: \<^verbatim>\<open>DELETE FROM build_mods WHERE build_id = ?\<close>, then the loop.\<close>

definition delete_mods :: "env \<Rightarrow> nat \<Rightarrow> store \<Rightarrow> js_error + store" where
  "delete_mods e buildId st =
     (case query e DELETE_build_mods [num buildId] of
        Some er \<Rightarrow> Inl er
      | None \<Rightarrow> Inr (st\<lparr>build_mods := filter (\<lambda>m. mod_build_id m \<noteq> buildId) (build_mods st)\<rparr>))"

definition PUT_build_try :: "env \<Rightarrow> nat \<Rightarrow> nat \<Rightarrow> build_request \<Rightarrow> string list
                             \<Rightarrow> string option list \<Rightarrow> mod_entry list \<Rightarrow> store
                             \<Rightarrow> js_error + store" where
  "PUT_build_try e buildId uid r keepCoversArr keepGalleryArr modsArr =
     run_steps
       [ownership_check buildId uid,
        update_main_row e buildId r,
        update_covers e buildId r keepCoversArr,
        reconcile_gallery e buildId keepGalleryArr,
        insert_new_gallery e buildId (galleryImages r),
        delete_mods e buildId,
        reinsert_mods e buildId (modImages r) 0 modsArr]"

text \<open>
  The handler: the JSON fields are parsed before the transaction begins; the \<^verbatim>\<open>catch\<close>
  block rolls back and answers 403 for the error \<^verbatim>\<open>NOT_OWNER\<close>, 500 for any other.
\<close>

definition PUT_build :: "env \<Rightarrow> store \<Rightarrow> cookie_token \<Rightarrow> nat \<Rightarrow> build_request \<Rightarrow> response \<times> store" where
  "PUT_build e st tok buildId r =
     (case ensureAuthenticated tok of
        Inl resp \<Rightarrow> (resp, st)
      | Inr uid \<Rightarrow>
         (case (parse_or_empty (req_keepCovers r), parse_or_empty (req_keepGallery r),
                parse_or_empty (req_mods r)) of
            (Some keepCoversArr, Some keepGalleryArr, Some modsArr) \<Rightarrow>
              (case PUT_build_try e buildId uid r keepCoversArr keepGalleryArr modsArr st of
                 Inr st' \<Rightarrow> (respond 200 True [], st')
               | Inl er \<Rightarrow>
                   if error_message er = ''NOT_OWNER''
                   then (respond 403 False ''Unauthorized'', st)
                   else (respond 500 False ''Server error'', st))
          | _ \<Rightarrow> (respond 400 False ''Invalid JSON payload'', st)))"

section \<open>Business reviews\<close>

text \<open>
  Neither review route names a middleware: the handlers never read the session cookie
  (it is an argument here, so that a request is complete), and take the user from the body.
\<close>

record review_body =
  rb_userId :: jsval
  rb_rating :: jsval
  rb_comment :: jsval

text \<open>\<^verbatim>\<open>POST /api/businesses/:businessId/reviews\<close>\<close>

definition POST_review :: "env \<Rightarrow> store \<Rightarrow> cookie_token \<Rightarrow> nat \<Rightarrow> review_body \<Rightarrow> response \<times> store" where
  "POST_review e st tok businessId b =
     (if \<not> truthy (rb_userId b) \<or> \<not> truthy (rb_rating b)
      then (respond 400 False ''User ID and rating are required.'', st)
      else if js_lt (StringToNumber e) (rb_rating b) 1 \<or> js_gt (StringToNumber e) (rb_rating b) 5
      then (respond 400 False ''Rating must be between 1 and 5.'', st)
      else if filter (\<lambda>rv. review_business_id rv = businessId \<and> review_user_id rv = rb_userId b)
                (business_reviews st) \<noteq> []
      then (respond 409 False ''You have already reviewed this business.'', st)
      else (case execute e INSERT_business_reviews
                   [num businessId, rb_userId b, rb_rating b, js_or (rb_comment b) JNull] of
              Some er \<Rightarrow> (respond 500 False ''Failed to submit review.'', st)
            | None \<Rightarrow>
                (respond 201 True ''Review submitted successfully.'',
                 st\<lparr>business_reviews := business_reviews st @
                      [\<lparr>review_id = insertId e, review_business_id = businessId,
                        review_user_id = rb_userId b, review_rating = rb_rating b,
                        review_comment = js_or (rb_comment b) JNull\<rparr>]\<rparr>)))"

text \<open>\<^verbatim>\<open>PUT /api/reviews/:reviewId\<close>\<close>

definition PUT_review :: "env \<Rightarrow> store \<Rightarrow> cookie_token \<Rightarrow> nat \<Rightarrow> review_body \<Rightarrow> response \<times> store" where
  "PUT_review e st tok reviewId b =
     (if \<not> truthy (rb_userId b) \<or> \<not> truthy (rb_rating b)
      then (respond 400 False ''User ID and rating are required for update.'', st)
      else if js_lt (StringToNumber e) (rb_rating b) 1 \<or> js_gt (StringToNumber e) (rb_rating b) 5
      then (respond 400 False ''Rating must be between 1 and 5.'', st)
      else (case filter (\<lambda>rv. review_id rv = reviewId) (business_reviews st) of
              [] \<Rightarrow> (respond 404 False ''Review not found.'', st)
            | rv # _ \<Rightarrow>
                if review_user_id rv \<noteq> rb_userId b
                then (respond 403 False ''You are not authorized to edit this review.'', st)
                else (case execute e UPDATE_business_reviews
                             [rb_rating b, js_or (rb_comment b) JNull, num reviewId] of
                        Some er \<Rightarrow> (respond 500 False ''Failed to update review.'', st)
                      | None \<Rightarrow>
                          (respond 200 True ''Review updated successfully.'',
                           st\<lparr>business_reviews :=
                                map (\<lambda>x. if review_id x = reviewId
                                          then x\<lparr>review_rating := rb_rating b,
                                                 review_comment := js_or (rb_comment b) JNull\<rparr>
                                          else x) (business_reviews st)\<rparr>))))"

section \<open>Follows\<close>

text \<open>
  Modelled from the spec: the table definitions are not in the repository. The spec's data
  model has at most one follow edge per ordered pair; the INSERT of a second one ends with
  \<^verbatim>\<open>ER_DUP_ENTRY\<close>.
\<close>

definition follows_unique :: "store \<Rightarrow> nat \<Rightarrow> nat \<Rightarrow> bool" where
  "follows_unique st followerId followedId = ((followerId, followedId) \<notin> set (follows st))"

text \<open>
  \<^verbatim>\<open>POST /api/follows\<close>. The body's \<^verbatim>\<open>followedId\<close> is absent or a user id (a non-negative
  integer, which \<^verbatim>\<open>parseInt\<close> returns as it is).
\<close>

definition POST_follow :: "env \<Rightarrow> store \<Rightarrow> cookie_token \<Rightarrow> nat option \<Rightarrow> response \<times> store" where
  "POST_follow e st tok followedId =
     (case ensureAuthenticated tok of
        Inl resp \<Rightarrow> (resp, st)
      | Inr followerId \<Rightarrow>
         (case followedId of
            None \<Rightarrow> (respond 400 False ''followedId is required.'', st)
          | Some fid \<Rightarrow>
             if fid = 0 then (respond 400 False ''followedId is required.'', st)
             else if followerId = fid then (respond 400 False ''You cannot follow yourself.'', st)
             else (case execute_unique e INSERT_follows [num followerId, num fid]
                          (\<not> follows_unique st followerId fid) ''follows.PRIMARY'' of
                     None \<Rightarrow>
                       (respond 201 True ''Successfully followed user.'',
                        st\<lparr>follows := follows st @ [(followerId, fid)]\<rparr>)
                   | Some er \<Rightarrow>
                       if error_code er = ''ER_DUP_ENTRY''
                       then (respond 409 False ''You are already following this user.'', st)
                       else (respond 500 False ''Server error while trying to follow user.'', st))))"

text \<open>\<^verbatim>\<open>DELETE /api/follows/:followedId\<close>; \<^verbatim>\<open>affectedRows\<close> counts the rows deleted.\<close>

definition DELETE_follow :: "env \<Rightarrow> store \<Rightarrow> cookie_token \<Rightarrow> nat \<Rightarrow> response \<times> store" where
  "DELETE_follow e st tok followedId =
     (case ensureAuthenticated tok of
        Inl resp \<Rightarrow> (resp, st)
      | Inr followerId \<Rightarrow>
         (case execute e DELETE_follows [num followerId, num followedId] of
            Some er \<Rightarrow> (respond 500 False ''Server error while trying to unfollow user.'', st)
          | None \<Rightarrow>
             (let affectedRows = length (filter (\<lambda>f. f = (followerId, followedId)) (follows st))
              in if affectedRows = 0
                 then (respond 404 False ''You are not following this user or user not found.'', st)
                 else (respond 200 True ''Successfully unfollowed user.'',
                       st\<lparr>follows := filter (\<lambda>f. f \<noteq> (followerId, followedId)) (follows st)\<rparr>))))"

section \<open>PUT /api/profile/:userId\<close>

record profile_body =
  pb_name :: jsval
  pb_bio :: jsval
  pb_avatar_url :: jsval

text \<open>
  \<^verbatim>\<open>avatar_url.match(/^data:(image\/(.+));base64,(.*)$/)\<close>: the text after
  \<^verbatim>\<open>data:image/\<close> is split at its last \<^verbatim>\<open>;base64,\<close> that leaves a non-empty extension
  (the group \<^verbatim>\<open>.+\<close> is greedy); the dot matches no line terminator. The result is the
  extension and the encoded data.
\<close>

fun greedy_split :: "string \<Rightarrow> string \<Rightarrow> (string \<times> string) option" where
  "greedy_split sep [] = None"
| "greedy_split sep (c # cs) =
     (case greedy_split sep cs of
        Some (a, b) \<Rightarrow> Some (c # a, b)
      | None \<Rightarrow> if startsWith cs sep then Some ([c], drop (length sep) cs) else None)"

definition line_terminator :: "char \<Rightarrow> bool" where
  "line_terminator c = (c = CHR 0x0A \<or> c = CHR 0x0D)"

definition match_data_uri :: "string \<Rightarrow> (string \<times> string) option" where
  "match_data_uri s =
     (if startsWith s ''data:image/'' \<and> \<not> list_ex line_terminator s
      then greedy_split '';base64,'' (drop 11 s)
      else None)"

text \<open>The decimal numeral of the \<^verbatim>\<open>:userId\<close> path parameter.\<close>

fun decimal :: "nat \<Rightarrow> string" where
  "decimal n = (if n < 10 then [''0123456789'' ! n]
                else decimal (n div 10) @ [''0123456789'' ! (n mod 10)])"

text \<open>
  \<^verbatim>\<open>finalAvatarUrl\<close>. A well-formed data URI is written to a file (a failure of
  \<^verbatim>\<open>mkdir\<close> or \<^verbatim>\<open>writeFile\<close> is thrown; the files themselves are not modelled) and
  replaced by the file's URL; a malformed one and the empty string become \<^verbatim>\<open>null\<close>; any
  other value is kept, \<^verbatim>\<open>undefined\<close> included. A truthy value that is not a string has
  no \<^verbatim>\<open>startsWith\<close>: the call throws a TypeError.
\<close>

definition finalAvatarUrl :: "env \<Rightarrow> nat \<Rightarrow> jsval \<Rightarrow> js_error + jsval" where
  "finalAvatarUrl e userIdParam a =
     (case a of
        JStr s \<Rightarrow>
          if s \<noteq> [] \<and> startsWith s ''data:image'' then
            (case match_data_uri s of
               Some (extension, base64Data) \<Rightarrow>
                 (case fs_failure e of
                    Some er \<Rightarrow> Inl er
                  | None \<Rightarrow> Inr (JStr (''/uploads/avatars/profilepics/avatar-'' @
                              decimal userIdParam @ ''-'' @ now e @ ''.'' @ extension)))
             | None \<Rightarrow> Inr JNull)
          else if s = [] then Inr JNull
          else Inr a
      | JNum r \<Rightarrow> if r \<noteq> 0 then Inl (JsError [] ''avatar_url.startsWith is not a function'')
                  else Inr a
      | JBool t \<Rightarrow> if t then Inl (JsError [] ''avatar_url.startsWith is not a function'')
                   else Inr a
      | _ \<Rightarrow> Inr a)"

text \<open>
  The SET clause: \<^verbatim>\<open>display_name\<close> and \<^verbatim>\<open>bio\<close> are pushed when the body has them,
  \<^verbatim>\<open>avatar_url\<close> always; each column comes with the parameter pushed for it.
\<close>

datatype user_column = Display_name | Bio | Avatar_url

definition setClauses :: "profile_body \<Rightarrow> jsval \<Rightarrow> (user_column \<times> jsval) list" where
  "setClauses b final =
     (if pb_name b \<noteq> JUndefined then [(Display_name, pb_name b)] else []) @
     (if pb_bio b \<noteq> JUndefined then [(Bio, pb_bio b)] else []) @
     [(Avatar_url, final)]"

fun assign :: "user_row \<Rightarrow> user_column \<times> jsval \<Rightarrow> user_row" where
  "assign u (Display_name, v) = u\<lparr>display_name := v\<rparr>"
| "assign u (Bio, v) = u\<lparr>bio := v\<rparr>"
| "assign u (Avatar_url, v) = u\<lparr>avatar_url := v\<rparr>"

definition PUT_profile :: "env \<Rightarrow> store \<Rightarrow> cookie_token \<Rightarrow> nat \<Rightarrow> profile_body \<Rightarrow> response \<times> store" where
  "PUT_profile e st tok userIdParam b =
     (case authenticateToken tok of
        Inl resp \<Rightarrow> (resp, st)
      | Inr uid \<Rightarrow>
         if uid \<noteq> userIdParam then (respond 403 False ''Unauthorized.'', st)
         else (case finalAvatarUrl e userIdParam (pb_avatar_url b) of
                 Inl er \<Rightarrow> (respond 500 False ''Failed to update profile.'', st)
               | Inr final \<Rightarrow>
                  (let sc = setClauses b final in
                   if sc = [] then (respond 200 True ''No information provided to update.'', st)
                   else (case execute e UPDATE_users (map snd sc @ [num userIdParam]) of
                           Some er \<Rightarrow> (respond 500 False ''Failed to update profile.'', st)
                         | None \<Rightarrow>
                            (respond 200 True ''Profile updated successfully.'',
                             st\<lparr>users := map (\<lambda>u. if user_id u = userIdParam
                                                   then foldl assign u sc else u) (users st)\<rparr>)))))"

section \<open>Derived descriptions of the build update\<close>

text \<open>
  The rows the loop of the update inserts, as a list: the same steps as \<open>reinsert_mods\<close>,
  without the statements.
\<close>

fun reinserted_rows :: "nat \<Rightarrow> string list \<Rightarrow> nat \<Rightarrow> mod_entry list \<Rightarrow> mod_row list" where
  "reinserted_rows buildId newModFiles imgIdx [] = []"
| "reinserted_rows buildId newModFiles imgIdx (m # ms) =
     reinserted_row buildId newModFiles imgIdx m #
     reinserted_rows buildId newModFiles
       (if takes_file newModFiles imgIdx m then imgIdx + 1 else imgIdx) ms"

text \<open>The child rows of one build: its mod rows, and the references of its gallery rows.\<close>

definition mods_of :: "nat \<Rightarrow> store \<Rightarrow> mod_row list" where
  "mods_of buildId st = filter (\<lambda>m. mod_build_id m = buildId) (build_mods st)"

definition gallery_of :: "nat \<Rightarrow> store \<Rightarrow> string list" where
  "gallery_of buildId st = map snd (filter (\<lambda>g. fst g = buildId) (build_gallery st))"

text \<open>
  The pairing of mod entries with uploaded files in the words of the specification (not of
  the code): an entry flagged as expecting a new image takes the next unconsumed uploaded
  file, that is, the file whose position is the number of flagged entries before it, and is
  left without an image when the files have run out; an unflagged entry reuses the image
  reference it carries if it has one, else gets null.
\<close>

definition flagged :: "mod_entry \<Rightarrow> bool" where
  "flagged m = truthy (hasImage m)"

definition paired_image :: "string list \<Rightarrow> mod_entry list \<Rightarrow> nat \<Rightarrow> jsval" where
  "paired_image files ms k =
     (let m = ms ! k in
      if flagged m then
        (let j = length (filter flagged (take k ms)) in
         if j < length files then JStr (upload_url (files ! j)) else JNull)
      else if truthy (entry_image_url m) then entry_image_url m
      else JNull)"

text \<open>
  Every gallery reference the two build handlers write begins with \<^verbatim>\<open>/uploads/\<close>. A store
  whose gallery rows all do is one these handlers can have produced.
\<close>

definition gallery_uploaded :: "store \<Rightarrow> bool" where
  "gallery_uploaded st = list_all (\<lambda>g. startsWith (snd g) ''/uploads/'') (build_gallery st)"

section \<open>Example requests\<close>

text \<open>
  An environment whose store refuses nothing and assigns the identifier 1, and in which no
  string reads as a number (none of the strings below does).
\<close>

definition accepting_env :: env where
  "accepting_env = \<lparr>insertId = 1, refuses = (\<lambda>q ps. None), StringToNumber = (\<lambda>s. None),
                     now = ''1700000000000'', fs_failure = None\<rparr>"

definition empty_store :: store where
  "empty_store = \<lparr>event_registrations = [], registered_cars = [], builds = [], build_gallery = [],
                   build_mods = [], business_reviews = [], follows = [], users = []\<rparr>"

text \<open>
  A store with one registration (event 3, \<^verbatim>\<open>a@b.com\<close>), build 5 of user 1 with three gallery
  images and one mod, review 7 of user 1, the follow edge (1, 2) and user 1.
\<close>

definition example_build :: build_row where
  "example_build = \<lparr>build_id = 5, build_user_id = 1, ownership_status = JStr ''current'',
                     car_name = JStr ''Supra'', build_model = JStr ''A80'', description = JNull,
                     body_style = JNull, cover_image = JNull, cover_image2 = JNull\<rparr>"

definition example_store :: store where
  "example_store =
     \<lparr>event_registrations =
        [\<lparr>reg_id = 4, reg_event_id = num 3, reg_user_id = num 1, reg_name = ''Ann Lee'',
          reg_email = JStr ''a@b.com'', reg_phone = JStr ''555''\<rparr>],
      registered_cars = [],
      builds = [example_build],
      build_gallery = [(5, ''/uploads/A''), (5, ''/uploads/B''), (5, ''/uploads/C'')],
      build_mods =
        [\<lparr>mod_build_id = 5, category = JStr ''Engine'', sub_category = JStr [],
          mod_name = JStr ''Turbo'', image_url = JNull, mod_note = JStr []\<rparr>],
      business_reviews =
        [\<lparr>review_id = 7, review_business_id = 3, review_user_id = num 1,
          review_rating = num 5, review_comment = JStr ''great''\<rparr>],
      follows = [(1, 2)],
      users =
        [\<lparr>user_id = 1, display_name = JStr ''Old'', bio = JNull,
          avatar_url = JStr ''/uploads/avatars/profilepics/avatar-1-1.png''\<rparr>]\<rparr>"

text \<open>
  An update of build 5: keep gallery image B, add one gallery image; three mods, the first
  and the third flagged, with a single uploaded mod file.
\<close>

definition example_mods :: "mod_entry list" where
  "example_mods =
     [\<lparr>main = JStr ''Engine'', sub = JUndefined, name = JStr ''Turbo'', details = JUndefined,
       hasImage = JBool True, entry_image_url = JUndefined, deleteImage = JUndefined\<rparr>,
      \<lparr>main = JStr ''Wheels'', sub = JUndefined, name = JStr ''TE37'', details = JUndefined,
       hasImage = JBool False, entry_image_url = JStr ''/uploads/old.png'',
       deleteImage = JUndefined\<rparr>,
      \<lparr>main = JStr ''Brakes'', sub = JUndefined, name = JStr ''BBK'', details = JUndefined,
       hasImage = JBool True, entry_image_url = JStr ''/uploads/kept.png'',
       deleteImage = JUndefined\<rparr>]"

definition example_update :: build_request where
  "example_update =
     \<lparr>req_ownership = Some ''previous'', req_car_name = Some ''Supra'', req_model = Some ''A80'',
      req_description = None, req_bodyStyle = None, req_mods = Parsed example_mods,
      req_keepCovers = Missing, req_keepGallery = Parsed [Some ''/uploads/B''],
      coverImages = [], galleryImages = [''D.png''], modImages = [''m1.png'']\<rparr>"

text \<open>The same update with a \<^verbatim>\<open>null\<close> in the retain list: \<^verbatim>\<open>["/uploads/B", null]\<close>.\<close>

definition example_update_null :: build_request where
  "example_update_null = example_update\<lparr>req_keepGallery := Parsed [Some ''/uploads/B'', None]\<rparr>"

text \<open>
  A creation with every field filled in, two covers, one gallery image, one mod image and
  two mods, the second of which has no \<^verbatim>\<open>name\<close>.
\<close>

definition example_create :: build_request where
  "example_create =
     \<lparr>req_ownership = Some ''current'', req_car_name = Some ''Supra'', req_model = Some ''A80'',
      req_description = Some ''Track car'', req_bodyStyle = Some ''Coupe'',
      req_mods = Parsed
        [\<lparr>main = JStr ''Engine'', sub = JStr ''Forced induction'', name = JStr ''Turbo'',
          details = JStr ''GT35'', hasImage = JUndefined, entry_image_url = JUndefined,
          deleteImage = JUndefined\<rparr>,
         \<lparr>main = JStr ''Wheels'', sub = JStr ''Rims'', name = JUndefined,
          details = JStr ''18 inch'', hasImage = JUndefined, entry_image_url = JUndefined,
          deleteImage = JUndefined\<rparr>],
      req_keepCovers = Missing, req_keepGallery = Missing,
      coverImages = [''c1.png'', ''c2.png''], galleryImages = [''g.png''],
      modImages = [''m1.png'', ''m2.png'']\<rparr>"

text \<open>
  The same creation with both mods complete, and a store that refuses the second mod row.
\<close>

definition example_create_complete :: build_request where
  "example_create_complete =
     example_create\<lparr>req_mods := Parsed
        [\<lparr>main = JStr ''Engine'', sub = JStr ''Forced induction'', name = JStr ''Turbo'',
          details = JStr ''GT35'', hasImage = JUndefined, entry_image_url = JUndefined,
          deleteImage = JUndefined\<rparr>,
         \<lparr>main = JStr ''Wheels'', sub = JStr ''Rims'', name = JStr ''TE37'',
          details = JStr ''18 inch'', hasImage = JUndefined, entry_image_url = JUndefined,
          deleteImage = JUndefined\<rparr>]\<rparr>"

definition refusing_env :: env where
  "refusing_env =
     accepting_env\<lparr>refuses := (\<lambda>q ps. if q = INSERT_build_mods \<and> JStr ''TE37'' \<in> set ps
                                         then Some (JsError ''ER_LOCK_WAIT_TIMEOUT''
                                                      ''Lock wait timeout exceeded'')
                                         else None)\<rparr>"

text \<open>
  A store that refuses the string \<^verbatim>\<open>abc\<close> as a rating (an integer column in strict mode).
\<close>

definition strict_env :: env where
  "strict_env =
     accepting_env\<lparr>refuses := (\<lambda>q ps. if (q = INSERT_business_reviews \<or> q = UPDATE_business_reviews)
                                            \<and> JStr ''abc'' \<in> set ps
                                         then Some (JsError ''ER_TRUNCATED_WRONG_VALUE_FOR_FIELD''
                                                      ''Incorrect integer value'')
                                         else None)\<rparr>"

text \<open>A second registration for event 3 with the e-mail address already registered.\<close>

definition example_registration :: register_body where
  "example_registration =
     \<lparr>firstName = Some ''Bob'', lastName = Some ''Roe'', email = JStr ''a@b.com'',
      phone = JStr ''777'', eventId = num 3, cars = Some [], userId = num 2\<rparr>"

text \<open>A review body that names user 1, and a profile body without \<^verbatim>\<open>avatar_url\<close>.\<close>

definition example_review :: review_body where
  "example_review = \<lparr>rb_userId = num 1, rb_rating = num 1, rb_comment = JStr ''bad''\<rparr>"

definition example_profile :: profile_body where
  "example_profile = \<lparr>pb_name = JStr ''New'', pb_bio = JUndefined, pb_avatar_url = JUndefined\<rparr>"

section \<open>Event registration\<close>

lemma insert_cars_Inr:
  "insert_cars e rid cs st = Inr st' \<Longrightarrow>
   st' = st\<lparr>registered_cars := registered_cars st @ map (Pair rid) cs\<rparr>"
proof (induction cs arbitrary: st)
  case Nil
  then show ?case by simp
next
  case (Cons c cs)
  let ?st = "st\<lparr>registered_cars := registered_cars st @ [(rid, c)]\<rparr>"
  from Cons.prems have rec: "insert_cars e rid cs ?st = Inr st'"
    by (simp split: option.splits)
  from Cons.IH [OF rec] show ?case by simp
qed

text \<open>
  The registration handler is atomic: either the request fails and the store is the one it
  found, or the registration row and one row per car have been added.
\<close>

lemma register_event_atomic:
  assumes "POST_register_event e st b = (resp, st')"
  shows "(\<not> success resp \<and> st' = st) \<or>
         (success resp \<and>
          event_registrations st' = event_registrations st @
            [\<lparr>reg_id = insertId e, reg_event_id = eventId b, reg_user_id = userId b,
              reg_name = registrantName b, reg_email = email b, reg_phone = phone b\<rparr>] \<and>
          registered_cars st' = registered_cars st @
            map (Pair (insertId e)) (case cars b of None \<Rightarrow> [] | Some cs \<Rightarrow> cs))"
  using assms
  by (auto simp: POST_register_event_def register_event_try_def insert_registration_def
                 respond_def
           split: if_splits sum.splits option.splits dest!: insert_cars_Inr)

text \<open>
  A registration that repeats an (event, e-mail) pair is rolled back and answered with the
  message for an address already registered, under status 500.
\<close>

lemma duplicate_registration_rolled_back:
  assumes "truthy (userId b)"
    and "JUndefined \<notin> set [eventId b, email b, phone b]"
    and "\<not> event_id_email_unique st (eventId b) (email b)"
  shows "POST_register_event e st b
         = (respond 500 False ''This email is already registered for this event.'', st)"
proof -
  from assms(1) have "userId b \<noteq> JUndefined" by auto
  with assms show ?thesis
    by (simp add: POST_register_event_def register_event_try_def insert_registration_def
          execute_unique_def bind_error_def ER_DUP_ENTRY_def registration_errorMessage_def
          startsWith_def)
qed

text \<open>
  C8. A second registration for an (event, e-mail) pair that is already registered is to be
  reported as a conflict (409, or a 400 of the domain), not as a server failure, leaving the
  first registration untouched. In the code the \<^verbatim>\<open>catch\<close> block picks the message
  \<^verbatim>\<open>This email is already registered for this event.\<close> and then answers
  \<^verbatim>\<open>res.status(500)\<close> like for every other error: at the example the response has status
  500 and the store is unchanged.
\<close>

theorem duplicate_registration_status_500:
  "POST_register_event accepting_env example_store example_registration
   = (respond 500 False ''This email is already registered for this event.'', example_store)"
  by (simp add: POST_register_event_def register_event_try_def insert_registration_def
        execute_unique_def bind_error_def event_id_email_unique_def ER_DUP_ENTRY_def
        registration_errorMessage_def example_store_def example_registration_def num_def
        startsWith_def)

theorem duplicate_registration_status_500_witness:
  "status (fst (POST_register_event accepting_env example_store example_registration)) = 500 \<and>
   event_registrations
     (snd (POST_register_event accepting_env example_store example_registration))
   = event_registrations example_store"
  using duplicate_registration_status_500 by (simp add: respond_def)

section \<open>Build creation\<close>

text \<open>
  Nothing the build creation has inserted is taken back: once the INSERT of the build row
  has gone through, the row is in the store whatever happens to the child rows.
\<close>

lemma insert_gallery_builds:
  "builds (snd (insert_gallery e bid us st)) = builds st"
  by (induction us arbitrary: st) (auto split: option.splits)

lemma insert_mods_builds:
  "builds (snd (insert_mods e bid fs i ms st)) = builds st"
  by (induction ms arbitrary: i st) (auto simp: Let_def split: option.splits)

lemma POST_build_parent_persists:
  assumes "ensureAuthenticated tok = Inr uid"
    and "parse_default (req_mods r) = Some ms"
    and "execute e INSERT_builds
           [num uid,
            (case req_ownership r of None \<Rightarrow> JStr ''current'' | Some s \<Rightarrow> JStr s),
            form (req_car_name r), form (req_model r),
            (case req_description r of None \<Rightarrow> JNull | Some s \<Rightarrow> JStr s),
            (case req_bodyStyle r of None \<Rightarrow> JNull | Some s \<Rightarrow> JStr s),
            (case coverImages r of [] \<Rightarrow> JNull | f # _ \<Rightarrow> JStr (upload_url f)),
            (case coverImages r of _ # f # _ \<Rightarrow> JStr (upload_url f) | _ \<Rightarrow> JNull)] = None"
  shows "map build_id (builds (snd (POST_build e st tok r)))
         = map build_id (builds st) @ [insertId e]"
proof -
  define st1 where "st1 = st\<lparr>builds := builds st @
        [\<lparr>build_id = insertId e, build_user_id = uid,
          ownership_status =
            (case req_ownership r of None \<Rightarrow> JStr ''current'' | Some s \<Rightarrow> JStr s),
          car_name = form (req_car_name r), build_model = form (req_model r),
          description = (case req_description r of None \<Rightarrow> JNull | Some s \<Rightarrow> JStr s),
          body_style = (case req_bodyStyle r of None \<Rightarrow> JNull | Some s \<Rightarrow> JStr s),
          cover_image = (case coverImages r of [] \<Rightarrow> JNull | f # _ \<Rightarrow> JStr (upload_url f)),
          cover_image2 =
            (case coverImages r of _ # f # _ \<Rightarrow> JStr (upload_url f) | _ \<Rightarrow> JNull)\<rparr>]\<rparr>"
  obtain er2 st2 where
    G: "insert_gallery e (insertId e) (map upload_url (galleryImages r)) st1 = (er2, st2)"
    by (cases "insert_gallery e (insertId e) (map upload_url (galleryImages r)) st1")
  obtain er3 st3 where M: "insert_mods e (insertId e) (modImages r) 0 ms st2 = (er3, st3)"
    by (cases "insert_mods e (insertId e) (modImages r) 0 ms st2")
  from insert_gallery_builds [of e "insertId e" "map upload_url (galleryImages r)" st1] G
  have b2: "builds st2 = builds st1" by simp
  from insert_mods_builds [of e "insertId e" "modImages r" 0 ms st2] M
  have b3: "builds st3 = builds st1" by (simp add: b2)
  have b1: "map build_id (builds st1) = map build_id (builds st) @ [insertId e]"
    by (simp add: st1_def)
  from assms G M b1 b2 b3 show ?thesis
    by (simp add: POST_build_def Let_def st1_def [symmetric] split: option.splits)
qed

text \<open>
  C1. Creating a composite entity is to be atomic: the parent row and all child rows
  persist, or none does. The registration handler is (\<open>register_event_atomic\<close>). The build
  handler runs on the pool without a transaction: at the example, whose second mod has no
  \<^verbatim>\<open>name\<close>, the INSERT of that mod throws on the \<^verbatim>\<open>undefined\<close> parameter, the handler
  answers 500, and the build row, the gallery row and the first mod row stay in the store.
\<close>

theorem build_create_partial_rows:
  "fst (POST_build accepting_env empty_store (GoodToken 1) example_create)
     = respond 500 False ''Server error'' \<and>
   map build_id (builds (snd (POST_build accepting_env empty_store (GoodToken 1) example_create)))
     = [1] \<and>
   build_gallery (snd (POST_build accepting_env empty_store (GoodToken 1) example_create))
     = [(1, ''/uploads/g.png'')] \<and>
   map mod_name
     (build_mods (snd (POST_build accepting_env empty_store (GoodToken 1) example_create)))
     = [JStr ''Turbo'']"
  by (simp add: POST_build_def example_create_def accepting_env_def empty_store_def execute_def
        bind_error_def num_def Let_def js_or_def upload_url_def)

theorem build_create_partial_rows_witness:
  "\<not> success (fst (POST_build accepting_env empty_store (GoodToken 1) example_create)) \<and>
   builds (snd (POST_build accepting_env empty_store (GoodToken 1) example_create)) \<noteq> []"
  using build_create_partial_rows by (auto simp: respond_def)

text \<open>
  The same happens when it is the store that refuses a child row: the rows inserted before
  it stay.
\<close>

lemma build_create_partial_rows_refused:
  "fst (POST_build refusing_env empty_store (GoodToken 1) example_create_complete)
     = respond 500 False ''Server error'' \<and>
   map build_id
     (builds (snd (POST_build refusing_env empty_store (GoodToken 1) example_create_complete)))
     = [1] \<and>
   build_gallery (snd (POST_build refusing_env empty_store (GoodToken 1) example_create_complete))
     = [(1, ''/uploads/g.png'')] \<and>
   map mod_name
     (build_mods (snd (POST_build refusing_env empty_store (GoodToken 1) example_create_complete)))
     = [JStr ''Turbo'']"
  by (simp add: POST_build_def example_create_complete_def example_create_def refusing_env_def
        accepting_env_def empty_store_def execute_def bind_error_def num_def Let_def js_or_def
        upload_url_def)

section \<open>Build update\<close>

subsection \<open>What a committed update has done\<close>

lemma reinsert_mods_rows:
  "reinsert_mods e bid fs i ms st = Inr st' \<Longrightarrow>
   st' = st\<lparr>build_mods := build_mods st @ reinserted_rows bid fs i ms\<rparr>"
proof (induction ms arbitrary: i st)
  case Nil
  then show ?case by simp
next
  case (Cons m ms)
  let ?i = "if takes_file fs i m then i + 1 else i"
  let ?st = "st\<lparr>build_mods := build_mods st @ [reinserted_row bid fs i m]\<rparr>"
  from Cons.prems have rec: "reinsert_mods e bid fs ?i ms ?st = Inr st'"
    by (auto simp: Let_def split: option.splits if_splits)
  from Cons.IH [OF rec] show ?case by simp
qed

lemma reinsert_mods_accepting:
  "(\<And>q ps. refuses e q ps = None) \<Longrightarrow>
   reinsert_mods e bid fs i ms st
   = Inr (st\<lparr>build_mods := build_mods st @ reinserted_rows bid fs i ms\<rparr>)"
  by (induction ms arbitrary: i st) (auto simp: Let_def query_def)

lemma run_steps_Cons_Inr:
  "run_steps (f # fs) st = Inr st' \<longleftrightarrow> (\<exists>st1. f st = Inr st1 \<and> run_steps fs st1 = Inr st')"
  by (simp split: sum.splits)

lemma ownership_check_Inr:
  "ownership_check bid uid st = Inr st1 \<Longrightarrow> st1 = st"
  by (auto simp: ownership_check_def split: list.splits if_splits)

lemma update_main_row_Inr:
  "update_main_row e bid r st = Inr st1 \<Longrightarrow> \<exists>B. st1 = st\<lparr>builds := B\<rparr>"
  by (auto simp: update_main_row_def Let_def split: option.splits)

lemma update_covers_Inr:
  "update_covers e bid r kc st = Inr st1 \<Longrightarrow> \<exists>B. st1 = st\<lparr>builds := B\<rparr>"
  by (auto simp: update_covers_def Let_def split: option.splits)

lemma reconcile_gallery_Inr:
  "reconcile_gallery e bid kg st = Inr st1 \<Longrightarrow>
   st1 = st\<lparr>build_gallery := delete_gallery bid kg (build_gallery st)\<rparr>"
  by (auto simp: reconcile_gallery_def split: option.splits)

lemma insert_new_gallery_Inr:
  "insert_new_gallery e bid fs st = Inr st1 \<Longrightarrow>
   st1 = st\<lparr>build_gallery := build_gallery st @ map (\<lambda>f. (bid, upload_url f)) fs\<rparr>"
  by (auto simp: insert_new_gallery_def Let_def split: option.splits if_splits)

lemma delete_mods_Inr:
  "delete_mods e bid st = Inr st1 \<Longrightarrow>
   st1 = st\<lparr>build_mods := filter (\<lambda>m. mod_build_id m \<noteq> bid) (build_mods st)\<rparr>"
  by (auto simp: delete_mods_def split: option.splits)

lemma PUT_build_try_Inr:
  assumes "PUT_build_try e bid uid r kc kg ms st = Inr st'"
  shows "\<exists>B. st' = st\<lparr>builds := B,
            build_gallery := delete_gallery bid kg (build_gallery st) @
                             map (\<lambda>f. (bid, upload_url f)) (galleryImages r),
            build_mods := filter (\<lambda>m. mod_build_id m \<noteq> bid) (build_mods st) @
                          reinserted_rows bid (modImages r) 0 ms\<rparr>"
proof -
  from assms obtain s1 s2 s3 s4 s5 s6 where
    1: "ownership_check bid uid st = Inr s1" and
    2: "update_main_row e bid r s1 = Inr s2" and
    3: "update_covers e bid r kc s2 = Inr s3" and
    4: "reconcile_gallery e bid kg s3 = Inr s4" and
    5: "insert_new_gallery e bid (galleryImages r) s4 = Inr s5" and
    6: "delete_mods e bid s5 = Inr s6" and
    7: "reinsert_mods e bid (modImages r) 0 ms s6 = Inr st'"
    unfolding PUT_build_try_def run_steps_Cons_Inr by auto
  from ownership_check_Inr [OF 1] have e1: "s1 = st" .
  from update_main_row_Inr [OF 2] obtain B1 where e2: "s2 = s1\<lparr>builds := B1\<rparr>" ..
  from update_covers_Inr [OF 3] obtain B2 where e3: "s3 = s2\<lparr>builds := B2\<rparr>" ..
  note e4 = reconcile_gallery_Inr [OF 4]
  note e5 = insert_new_gallery_Inr [OF 5]
  note e6 = delete_mods_Inr [OF 6]
  note e7 = reinsert_mods_rows [OF 7]
  show ?thesis
    by (rule exI [of _ B2]) (simp add: e1 e2 e3 e4 e5 e6 e7)
qed

lemma PUT_build_try_accepting:
  assumes "\<And>q ps. refuses e q ps = None" and "ownership_check bid uid st = Inr st"
  shows "\<exists>st'. PUT_build_try e bid uid r kc kg ms st = Inr st'"
  using assms
  by (simp add: PUT_build_try_def update_main_row_def update_covers_def reconcile_gallery_def
                insert_new_gallery_def delete_mods_def query_def Let_def reinsert_mods_accepting)

lemma ensureAuthenticated_Inl: "ensureAuthenticated tok = Inl resp \<Longrightarrow> \<not> success resp"
  by (cases tok) (auto simp: respond_def)

text \<open>Only a committed transaction is answered with \<^verbatim>\<open>success: true\<close>.\<close>

lemma PUT_build_success:
  assumes "PUT_build e st tok bid r = (resp, st')" and "success resp"
  shows "\<exists>uid kc kg ms. tok = GoodToken uid \<and> parse_or_empty (req_keepCovers r) = Some kc \<and>
           parse_or_empty (req_keepGallery r) = Some kg \<and> parse_or_empty (req_mods r) = Some ms \<and>
           PUT_build_try e bid uid r kc kg ms st = Inr st'"
  using assms
  by (cases tok)
     (auto simp: PUT_build_def respond_def split: sum.splits option.splits if_splits)

text \<open>Any other answer leaves the store as the request found it.\<close>

lemma PUT_build_cases:
  assumes "PUT_build e st tok bid r = (resp, st')"
  shows "st' = st \<or> (\<exists>uid kc kg ms. PUT_build_try e bid uid r kc kg ms st = Inr st')"
  using assms
  by (cases tok)
     (auto simp: PUT_build_def split: sum.splits option.splits if_splits)

lemma example_update_succeeds:
  "success (fst (PUT_build accepting_env example_store (GoodToken 1) 5 example_update))"
  by (simp add: PUT_build_def PUT_build_try_def ownership_check_def update_main_row_def
        update_covers_def reconcile_gallery_def insert_new_gallery_def delete_mods_def
        query_def Let_def reinsert_mods_accepting accepting_env_def example_store_def
        example_update_def example_build_def respond_def)

subsection \<open>Ownership\<close>

text \<open>
  C3, as amended. For every authenticated build update whose JSON fields parse: when no
  build row has the given id, or the row's owner is not the caller, the update is answered
  403 \<^verbatim>\<open>Unauthorized\<close> and the store is left as it was. (The code has one guard for both
  cases, \<^verbatim>\<open>!ownerRows.length || ownerRows[0].user_id !== userId\<close>, and one answer; a missing
  build is not answered NotFound.)
\<close>

theorem build_update_not_owner:
  assumes "tok = GoodToken uid"
    and "parse_or_empty (req_keepCovers r) \<noteq> None"
    and "parse_or_empty (req_keepGallery r) \<noteq> None"
    and "parse_or_empty (req_mods r) \<noteq> None"
    and "(case filter (\<lambda>b. build_id b = buildId) (builds st) of
            [] \<Rightarrow> True
          | owner # _ \<Rightarrow> build_user_id owner \<noteq> uid)"
  shows "PUT_build e st tok buildId r = (respond 403 False ''Unauthorized'', st)"
proof -
  from assms(5) have "ownership_check buildId uid st = Inl (JsError [] ''NOT_OWNER'')"
    by (auto simp: ownership_check_def split: list.splits)
  then have "PUT_build_try e buildId uid r kc kg ms st = Inl (JsError [] ''NOT_OWNER'')"
    for kc kg ms
    by (simp add: PUT_build_try_def)
  with assms(1-4) show ?thesis
    by (auto simp: PUT_build_def)
qed

text \<open>User 2 updates build 5, which belongs to user 1.\<close>

theorem build_update_not_owner_witness:
  "PUT_build accepting_env example_store (GoodToken 2) 5 example_update
     = (respond 403 False ''Unauthorized'', example_store)"
proof -
  have "(case filter (\<lambda>b. build_id b = 5) (builds example_store) of
            [] \<Rightarrow> True
          | owner # _ \<Rightarrow> build_user_id owner \<noteq> 2)"
    by (simp add: example_store_def example_build_def)
  then show ?thesis
    by (intro build_update_not_owner) (simp_all add: example_update_def)
qed

text \<open>
  C3 as stated asks for NotFound when no build row has the id. No build has id 9 in the
  example store, and the update of build 9 is answered 403.
\<close>

theorem build_update_missing_build_counterexample:
  "filter (\<lambda>b. build_id b = 9) (builds example_store) = [] \<and>
   PUT_build accepting_env example_store (GoodToken 1) 9 example_update
     = (respond 403 False ''Unauthorized'', example_store)"
  by (simp add: PUT_build_def PUT_build_try_def ownership_check_def example_store_def
        example_build_def example_update_def)

subsection \<open>Mods\<close>

lemma length_reinserted_rows [simp]: "length (reinserted_rows bid fs i ms) = length ms"
  by (induction ms arbitrary: i) auto

lemma reinserted_rows_build_id:
  "m \<in> set (reinserted_rows bid fs i ms) \<Longrightarrow> mod_build_id m = bid"
  by (induction ms arbitrary: i) (auto simp: reinserted_row_def split: if_splits)

text \<open>After a committed update the mod rows of the build are the rows the loop inserted.\<close>

lemma mods_of_after_update:
  assumes "PUT_build_try e bid uid r kc kg ms st = Inr st'"
  shows "mods_of bid st' = reinserted_rows bid (modImages r) 0 ms"
proof -
  from PUT_build_try_Inr [OF assms] obtain B where
    "st' = st\<lparr>builds := B,
            build_gallery := delete_gallery bid kg (build_gallery st) @
                             map (\<lambda>f. (bid, upload_url f)) (galleryImages r),
            build_mods := filter (\<lambda>m. mod_build_id m \<noteq> bid) (build_mods st) @
                          reinserted_rows bid (modImages r) 0 ms\<rparr>" ..
  then have "mods_of bid st' =
        filter (\<lambda>m. mod_build_id m = bid)
          (filter (\<lambda>m. mod_build_id m \<noteq> bid) (build_mods st)) @
        filter (\<lambda>m. mod_build_id m = bid) (reinserted_rows bid (modImages r) 0 ms)"
    by (simp add: mods_of_def)
  moreover have "filter (\<lambda>m. mod_build_id m = bid)
                   (filter (\<lambda>m. mod_build_id m \<noteq> bid) (build_mods st)) = []"
    by (simp add: filter_empty_conv)
  moreover have "filter (\<lambda>m. mod_build_id m = bid) (reinserted_rows bid (modImages r) 0 ms)
                 = reinserted_rows bid (modImages r) 0 ms"
    by (simp add: filter_id_conv reinserted_rows_build_id)
  ultimately show ?thesis by simp
qed



subsection \<open>Mod images\<close>

lemma truthy_nullish [simp]: "truthy (nullish v JNull) = truthy v"
  by (cases v) (auto simp: nullish_def)

lemma nullish_truthy: "truthy v \<Longrightarrow> nullish v JNull = v"
  by (cases v) (auto simp: nullish_def)

text \<open>
  The counter \<^verbatim>\<open>imgIdx\<close> is the number of flagged entries met so far, capped at the number
  of uploaded files.
\<close>

lemma mod_image_url_paired:
  "mod_image_url fs (min (length (filter flagged pre)) (length fs)) m
     = paired_image fs (pre @ m # ms) (length pre)"
  by (auto simp: mod_image_url_def paired_image_def takes_file_def flagged_def Let_def
                 nullish_truthy min_def)

lemma next_imgIdx:
  "(if takes_file fs (min (length (filter flagged pre)) (length fs)) m
    then min (length (filter flagged pre)) (length fs) + 1
    else min (length (filter flagged pre)) (length fs))
   = min (length (filter flagged (pre @ [m]))) (length fs)"
  by (auto simp: takes_file_def flagged_def min_def)

lemma reinserted_rows_paired:
  "k < length ms \<Longrightarrow>
   image_url (reinserted_rows bid fs (min (length (filter flagged pre)) (length fs)) ms ! k)
     = paired_image fs (pre @ ms) (length pre + k)"
proof (induction ms arbitrary: pre k)
  case Nil
  then show ?case by simp
next
  case (Cons m ms)
  show ?case
  proof (cases k)
    case 0
    then show ?thesis
      using mod_image_url_paired [of fs pre m ms] by (simp add: reinserted_row_def)
  next
    case (Suc j)
    with Cons.prems have j: "j < length ms" by simp
    from Cons.IH [OF j, of "pre @ [m]"] Suc show ?thesis
      by (simp only: reinserted_rows.simps next_imgIdx nth_Cons_Suc)
         (simp)
  qed
qed

lemma map_image_url_reinserted_rows:
  "map image_url (reinserted_rows bid fs 0 ms) = map (paired_image fs ms) [0..<length ms]"
proof (rule nth_equalityI)
  show "length (map image_url (reinserted_rows bid fs 0 ms))
        = length (map (paired_image fs ms) [0..<length ms])" by simp
next
  fix k assume "k < length (map image_url (reinserted_rows bid fs 0 ms))"
  then have k: "k < length ms" by simp
  from reinserted_rows_paired [OF k, of bid fs "[]"] k
  show "map image_url (reinserted_rows bid fs 0 ms) ! k
        = map (paired_image fs ms) [0..<length ms] ! k" by simp
qed

text \<open>
  C6. For every build update, the image reference of each re-inserted mod is the one the
  specification describes (\<open>paired_image\<close>): a flagged entry takes the next unconsumed
  uploaded file, in the order of transmission; an unflagged entry reuses the reference it
  carries if it has one, else gets null; flagged entries beyond the last file get null. The
  pairing raises no error of its own: an update by the owner whose JSON fields parse
  succeeds whenever the store refuses none of its statements, whatever the two counts are.
\<close>

theorem build_update_mod_images:
  assumes "PUT_build e st tok buildId r = (resp, st')"
    and "parse_or_empty (req_mods r) = Some modsArr"
  shows "(success resp \<longrightarrow>
            map image_url (mods_of buildId st')
              = map (paired_image (modImages r) modsArr) [0..<length modsArr]) \<and>
         ((\<forall>q ps. refuses e q ps = None) \<and> tok = GoodToken uid \<and>
          ownership_check buildId uid st = Inr st \<and>
          parse_or_empty (req_keepCovers r) \<noteq> None \<and>
          parse_or_empty (req_keepGallery r) \<noteq> None \<longrightarrow> success resp)"
proof (intro conjI impI)
  assume ok: "success resp"
  from PUT_build_success [OF assms(1) ok] obtain u kc kg ms where
    ms: "parse_or_empty (req_mods r) = Some ms" and
    run: "PUT_build_try e buildId u r kc kg ms st = Inr st'" by blast
  from ms assms(2) have "ms = modsArr" by simp
  with mods_of_after_update [OF run] show
    "map image_url (mods_of buildId st')
       = map (paired_image (modImages r) modsArr) [0..<length modsArr]"
    by (simp add: map_image_url_reinserted_rows)
next
  assume a: "(\<forall>q ps. refuses e q ps = None) \<and> tok = GoodToken uid \<and>
          ownership_check buildId uid st = Inr st \<and>
          parse_or_empty (req_keepCovers r) \<noteq> None \<and>
          parse_or_empty (req_keepGallery r) \<noteq> None"
  then obtain kc kg where kc: "parse_or_empty (req_keepCovers r) = Some kc"
    and kg: "parse_or_empty (req_keepGallery r) = Some kg" by auto
  from a have acc: "\<And>q ps. refuses e q ps = None" by simp
  from a have own: "ownership_check buildId uid st = Inr st" by simp
  from PUT_build_try_accepting [OF acc own] obtain s' where
    "PUT_build_try e buildId uid r kc kg modsArr st = Inr s'" by blast
  with a kc kg assms have "resp = respond 200 True []"
    by (simp add: PUT_build_def)
  then show "success resp" by (simp add: respond_def)
qed

text \<open>
  Three entries, the first and the third flagged, and one uploaded file: the first takes the
  file, the second keeps its reference, the third is stored without an image (its own
  reference is not used), and the update succeeds.
\<close>

theorem build_update_mod_images_witness:
  "success (fst (PUT_build accepting_env example_store (GoodToken 1) 5 example_update)) \<and>
   map image_url
     (mods_of 5 (snd (PUT_build accepting_env example_store (GoodToken 1) 5 example_update)))
     = [JStr ''/uploads/m1.png'', JStr ''/uploads/old.png'', JNull]"
proof -
  have m: "parse_or_empty (req_mods example_update) = Some example_mods"
    by (simp add: example_update_def)
  have f: "modImages example_update = [''m1.png'']"
    by (simp add: example_update_def)
  have p: "map (paired_image [''m1.png''] example_mods) [0..<length example_mods]
           = [JStr ''/uploads/m1.png'', JStr ''/uploads/old.png'', JNull]"
    by (simp add: example_mods_def paired_image_def flagged_def upload_url_def upt_rec)
  from build_update_mod_images [OF prod.collapse [symmetric] m, where uid = 1]
    example_update_succeeds
  show ?thesis by (simp add: f p)
qed

subsection \<open>Gallery\<close>

text \<open>With a retain list of strings the DELETE keeps the rows whose reference is in it.\<close>

lemma gallery_of_delete:
  assumes "''__NONE__'' \<notin> set (gallery_of bid st)" and "None \<notin> set kg"
  shows "map snd (filter (\<lambda>g. fst g = bid) (delete_gallery bid kg (build_gallery st)))
         = filter (\<lambda>u. Some u \<in> set kg) (gallery_of bid st)"
proof -
  from assms(2) have nn: "None \<notin> set (not_in_list kg)"
    by (simp add: not_in_list_def)
  have "map snd (filter (\<lambda>g. fst g = bid) (delete_gallery bid kg (build_gallery st)))
        = filter (\<lambda>u. Some u \<in> set (not_in_list kg)) (gallery_of bid st)"
    using nn
    by (simp add: delete_gallery_def gallery_of_def filter_map comp_def conj_commute
          sql_not_in_def)
       (metis (mono_tags, lifting) filter_cong)
  also have "\<dots> = filter (\<lambda>u. Some u \<in> set kg) (gallery_of bid st)"
  proof (cases "kg = []")
    case True
    with assms(1) show ?thesis
      by (auto simp: not_in_list_def filter_empty_conv)
  next
    case False
    then show ?thesis by (simp add: not_in_list_def)
  qed
  finally show ?thesis .
qed

text \<open>With a \<^verbatim>\<open>null\<close> in the retain list the DELETE removes nothing.\<close>

lemma delete_gallery_null:
  "None \<in> set kg \<Longrightarrow> delete_gallery bid kg G = G"
  by (auto simp: delete_gallery_def sql_not_in_def not_in_list_def)

lemma gallery_of_delete_other:
  "b \<noteq> bid \<Longrightarrow> filter (\<lambda>g. fst g = b) (delete_gallery bid kg G) = filter (\<lambda>g. fst g = b) G"
  by (induction G) (auto simp: delete_gallery_def)

lemma gallery_uploaded_no_sentinel:
  "gallery_uploaded st \<Longrightarrow> ''__NONE__'' \<notin> set (gallery_of bid st)"
  by (auto simp: gallery_uploaded_def gallery_of_def list_all_iff startsWith_def)

lemma gallery_of_new_rows:
  "map snd (filter (\<lambda>g. fst g = bid) (map (\<lambda>f. (bid, upload_url f)) fs)) = map upload_url fs"
  by (induction fs) auto

text \<open>
  The reconciliation on retain lists that hold references only (in a store whose gallery
  references were written by the build handlers): after a successful update the gallery of
  the build is the rows that were there and are in the retain list, followed by one row per
  newly uploaded file; an empty retain list leaves the new uploads only; the galleries of
  other builds are untouched.
\<close>

lemma build_update_gallery_references:
  assumes "PUT_build e st tok buildId r = (resp, st')"
    and "success resp"
    and "parse_or_empty (req_keepGallery r) = Some keepGalleryArr"
    and "None \<notin> set keepGalleryArr"
    and "gallery_uploaded st"
  shows "gallery_of buildId st'
           = filter (\<lambda>u. Some u \<in> set keepGalleryArr) (gallery_of buildId st) @
             map upload_url (galleryImages r) \<and>
         set (gallery_of buildId st')
           = {u \<in> set (gallery_of buildId st). Some u \<in> set keepGalleryArr} \<union>
             set (map upload_url (galleryImages r)) \<and>
         (keepGalleryArr = [] \<longrightarrow> gallery_of buildId st' = map upload_url (galleryImages r)) \<and>
         (\<forall>b. b \<noteq> buildId \<longrightarrow> gallery_of b st' = gallery_of b st)"
proof -
  from PUT_build_success [OF assms(1,2)] obtain uid kc kg ms where
    kg: "parse_or_empty (req_keepGallery r) = Some kg" and
    run: "PUT_build_try e buildId uid r kc kg ms st = Inr st'" by blast
  from kg assms(3) have kgeq: "kg = keepGalleryArr" by simp
  from PUT_build_try_Inr [OF run] obtain B where
    st': "st' = st\<lparr>builds := B,
            build_gallery := delete_gallery buildId kg (build_gallery st) @
                             map (\<lambda>f. (buildId, upload_url f)) (galleryImages r),
            build_mods := filter (\<lambda>m. mod_build_id m \<noteq> buildId) (build_mods st) @
                          reinserted_rows buildId (modImages r) 0 ms\<rparr>" ..
  from assms(4) kgeq have nn: "None \<notin> set kg" by simp
  have kept: "gallery_of buildId st'
           = filter (\<lambda>u. Some u \<in> set keepGalleryArr) (gallery_of buildId st) @
             map upload_url (galleryImages r)"
    using gallery_of_delete [OF gallery_uploaded_no_sentinel [OF assms(5)] nn, of buildId]
    by (simp add: st' gallery_of_def kgeq gallery_of_new_rows)
  have other: "gallery_of b st' = gallery_of b st" if "b \<noteq> buildId" for b
    using that by (simp add: st' gallery_of_def gallery_of_delete_other filter_map comp_def)
  from kept other show ?thesis by auto
qed

text \<open>The gallery of build 5 holds A, B and C; the update retains B and uploads D.\<close>

lemma build_update_gallery_references_example:
  "gallery_of 5 example_store = [''/uploads/A'', ''/uploads/B'', ''/uploads/C''] \<and>
   gallery_of 5 (snd (PUT_build accepting_env example_store (GoodToken 1) 5 example_update))
     = [''/uploads/B'', ''/uploads/D.png'']"
proof -
  have k: "parse_or_empty (req_keepGallery example_update) = Some [Some ''/uploads/B'']"
    by (simp add: example_update_def)
  have u: "gallery_uploaded example_store"
    by (simp add: gallery_uploaded_def example_store_def startsWith_def)
  from build_update_gallery_references
         [OF prod.collapse [symmetric] example_update_succeeds k _ u]
  show ?thesis
    by (simp add: gallery_of_def example_store_def example_update_def upload_url_def)
qed

text \<open>
  A retain list that holds a \<^verbatim>\<open>null\<close> keeps every row of the build: after a successful
  update the gallery is all the rows that were there, followed by the new uploads.
\<close>

lemma build_update_gallery_null:
  assumes "PUT_build e st tok buildId r = (resp, st')"
    and "success resp"
    and "parse_or_empty (req_keepGallery r) = Some keepGalleryArr"
    and "None \<in> set keepGalleryArr"
  shows "gallery_of buildId st' = gallery_of buildId st @ map upload_url (galleryImages r)"
proof -
  from PUT_build_success [OF assms(1,2)] obtain uid kc kg ms where
    kg: "parse_or_empty (req_keepGallery r) = Some kg" and
    run: "PUT_build_try e buildId uid r kc kg ms st = Inr st'" by blast
  from kg assms(3,4) have nn: "None \<in> set kg" by simp
  from PUT_build_try_Inr [OF run] obtain B where
    st': "st' = st\<lparr>builds := B,
            build_gallery := delete_gallery buildId kg (build_gallery st) @
                             map (\<lambda>f. (buildId, upload_url f)) (galleryImages r),
            build_mods := filter (\<lambda>m. mod_build_id m \<noteq> buildId) (build_mods st) @
                          reinserted_rows buildId (modImages r) 0 ms\<rparr>" ..
  show ?thesis
    by (simp add: st' gallery_of_def delete_gallery_null [OF nn] gallery_of_new_rows)
qed

lemma example_update_null_succeeds:
  "success (fst (PUT_build accepting_env example_store (GoodToken 1) 5 example_update_null))"
  by (simp add: PUT_build_def PUT_build_try_def ownership_check_def update_main_row_def
        update_covers_def reconcile_gallery_def insert_new_gallery_def delete_mods_def
        query_def Let_def reinsert_mods_accepting accepting_env_def example_store_def
        example_update_null_def example_update_def example_build_def respond_def)

text \<open>
  C5. After a successful build update the gallery of the build is to be the retain set
  (restricted to the rows that were there) united with the new uploads, every other row
  being deleted. For retain lists of references the code does so
  (\<open>build_update_gallery_references\<close>). The retain list is whatever array the JSON text
  holds, and the DELETE compares with \<^verbatim>\<open>NOT IN\<close>: at the example, whose retain list is
  \<^verbatim>\<open>["/uploads/B", null]\<close> and whose build has the images A, B and C, the condition is true
  of no row, the update succeeds, and A and C are still in the gallery.
\<close>

theorem build_update_gallery_null_keeps_all:
  "fst (PUT_build accepting_env example_store (GoodToken 1) 5 example_update_null)
     = respond 200 True [] \<and>
   gallery_of 5 example_store = [''/uploads/A'', ''/uploads/B'', ''/uploads/C''] \<and>
   gallery_of 5 (snd (PUT_build accepting_env example_store (GoodToken 1) 5 example_update_null))
     = [''/uploads/A'', ''/uploads/B'', ''/uploads/C'', ''/uploads/D.png'']"
  by (simp add: PUT_build_def PUT_build_try_def ownership_check_def update_main_row_def
        update_covers_def reconcile_gallery_def insert_new_gallery_def delete_mods_def
        query_def Let_def reinsert_mods_accepting accepting_env_def example_store_def
        example_update_null_def example_update_def example_build_def gallery_of_def
        delete_gallery_def sql_not_in_def not_in_list_def upload_url_def)

theorem build_update_gallery_null_keeps_all_witness:
  "success (fst (PUT_build accepting_env example_store (GoodToken 1) 5 example_update_null)) \<and>
   ''/uploads/A'' \<in> set (gallery_of 5
      (snd (PUT_build accepting_env example_store (GoodToken 1) 5 example_update_null)))"
  using build_update_gallery_null_keeps_all by (simp add: respond_def)

text \<open>
  The hypothesis \<open>gallery_uploaded\<close> of \<open>build_update_gallery_references\<close> is an invariant of
  the build handlers: it holds of the empty store, and creation and update keep it,
  whatever their outcome.
\<close>

lemma startsWith_upload_url [simp]: "startsWith (upload_url f) ''/uploads/''"
  by (simp add: startsWith_def upload_url_def)

lemma gallery_uploaded_empty: "gallery_uploaded empty_store"
  by (simp add: gallery_uploaded_def empty_store_def)

lemma delete_gallery_subset: "set (delete_gallery bid kg G) \<subseteq> set G"
  by (auto simp: delete_gallery_def)

lemma gallery_uploaded_PUT_build:
  assumes "gallery_uploaded st"
  shows "gallery_uploaded (snd (PUT_build e st tok bid r))"
proof -
  obtain resp st' where R: "PUT_build e st tok bid r = (resp, st')"
    by (cases "PUT_build e st tok bid r")
  from PUT_build_cases [OF R] show ?thesis
  proof
    assume "st' = st"
    with R assms show ?thesis by simp
  next
    assume "\<exists>uid kc kg ms. PUT_build_try e bid uid r kc kg ms st = Inr st'"
    then obtain uid kc kg ms where "PUT_build_try e bid uid r kc kg ms st = Inr st'" by blast
    from PUT_build_try_Inr [OF this] obtain B where
      "st' = st\<lparr>builds := B,
            build_gallery := delete_gallery bid kg (build_gallery st) @
                             map (\<lambda>f. (bid, upload_url f)) (galleryImages r),
            build_mods := filter (\<lambda>m. mod_build_id m \<noteq> bid) (build_mods st) @
                          reinserted_rows bid (modImages r) 0 ms\<rparr>" ..
    with assms delete_gallery_subset [of bid kg "build_gallery st"] R show ?thesis
      by (auto simp: gallery_uploaded_def list_all_iff)
  qed
qed

lemma insert_gallery_uploaded:
  "gallery_uploaded st \<Longrightarrow> list_all (\<lambda>u. startsWith u ''/uploads/'') us \<Longrightarrow>
   gallery_uploaded (snd (insert_gallery e bid us st))"
  by (induction us arbitrary: st) (auto simp: gallery_uploaded_def split: option.splits)

lemma insert_mods_gallery:
  "build_gallery (snd (insert_mods e bid fs i ms st)) = build_gallery st"
  by (induction ms arbitrary: i st) (auto simp: Let_def split: option.splits)

lemma gallery_uploaded_POST_build:
  assumes "gallery_uploaded st"
  shows "gallery_uploaded (snd (POST_build e st tok r))"
proof (cases "ensureAuthenticated tok")
  case (Inl resp)
  with assms show ?thesis by (simp add: POST_build_def)
next
  case (Inr uid)
  show ?thesis
  proof (cases "parse_default (req_mods r)")
    case None
    with Inr assms show ?thesis by (simp add: POST_build_def)
  next
    case (Some ms)
    note parsed = Some
    let ?ps = "[num uid,
                (case req_ownership r of None \<Rightarrow> JStr ''current'' | Some s \<Rightarrow> JStr s),
                form (req_car_name r), form (req_model r),
                (case req_description r of None \<Rightarrow> JNull | Some s \<Rightarrow> JStr s),
                (case req_bodyStyle r of None \<Rightarrow> JNull | Some s \<Rightarrow> JStr s),
                (case coverImages r of [] \<Rightarrow> JNull | f # _ \<Rightarrow> JStr (upload_url f)),
                (case coverImages r of _ # f # _ \<Rightarrow> JStr (upload_url f) | _ \<Rightarrow> JNull)]"
    show ?thesis
    proof (cases "execute e INSERT_builds ?ps")
      case (Some er)
      with Inr parsed assms show ?thesis
        by (simp add: POST_build_def Let_def)
    next
      case None
      define st1 where "st1 = st\<lparr>builds := builds st @
            [\<lparr>build_id = insertId e, build_user_id = uid,
              ownership_status =
                (case req_ownership r of None \<Rightarrow> JStr ''current'' | Some s \<Rightarrow> JStr s),
              car_name = form (req_car_name r), build_model = form (req_model r),
              description = (case req_description r of None \<Rightarrow> JNull | Some s \<Rightarrow> JStr s),
              body_style = (case req_bodyStyle r of None \<Rightarrow> JNull | Some s \<Rightarrow> JStr s),
              cover_image = (case coverImages r of [] \<Rightarrow> JNull | f # _ \<Rightarrow> JStr (upload_url f)),
              cover_image2 =
                (case coverImages r of _ # f # _ \<Rightarrow> JStr (upload_url f) | _ \<Rightarrow> JNull)\<rparr>]\<rparr>"
      have g1: "gallery_uploaded st1"
        using assms by (simp add: st1_def gallery_uploaded_def)
      have urls: "list_all (\<lambda>u. startsWith u ''/uploads/'') (map upload_url (galleryImages r))"
        by (simp add: list_all_iff)
      obtain er2 st2 where
        G: "insert_gallery e (insertId e) (map upload_url (galleryImages r)) st1 = (er2, st2)"
        by (cases "insert_gallery e (insertId e) (map upload_url (galleryImages r)) st1")
      from insert_gallery_uploaded [OF g1 urls, of e "insertId e"] G
      have g2: "gallery_uploaded st2" by simp
      obtain er3 st3 where M: "insert_mods e (insertId e) (modImages r) 0 ms st2 = (er3, st3)"
        by (cases "insert_mods e (insertId e) (modImages r) 0 ms st2")
      from insert_mods_gallery [of e "insertId e" "modImages r" 0 ms st2] M g2
      have g3: "gallery_uploaded st3" by (simp add: gallery_uploaded_def)
      from Inr parsed None G M g2 g3
      show ?thesis
        by (simp add: POST_build_def Let_def st1_def [symmetric] split: option.splits)
    qed
  qed
qed

section \<open>Business reviews\<close>

text \<open>The answer and the effect of the review handlers do not depend on the session.\<close>

lemma review_handlers_ignore_session:
  "PUT_review e st tok reviewId b = PUT_review e st tok' reviewId b"
  "POST_review e st tok businessId b = POST_review e st tok' businessId b"
  by (simp_all add: PUT_review_def POST_review_def)

text \<open>
  C2. A review row is to be written only when the authenticated principal is its owner, the
  comparison being made against the session, not against input of the caller. The review
  routes have no middleware and compare the row's owner with the \<^verbatim>\<open>userId\<close> of the body:
  without any session cookie, a body naming user 1 rewrites review 7 of user 1, and with
  the session of user 9 a body naming user 1 creates a review owned by user 1.
\<close>

theorem review_write_without_session:
  "PUT_review accepting_env example_store NoToken 7 example_review
   = (respond 200 True ''Review updated successfully.'',
      example_store\<lparr>business_reviews :=
        [\<lparr>review_id = 7, review_business_id = 3, review_user_id = num 1,
          review_rating = num 1, review_comment = JStr ''bad''\<rparr>]\<rparr>) \<and>
   POST_review accepting_env example_store (GoodToken 9) 4 example_review
   = (respond 201 True ''Review submitted successfully.'',
      example_store\<lparr>business_reviews := business_reviews example_store @
        [\<lparr>review_id = 1, review_business_id = 4, review_user_id = num 1,
          review_rating = num 1, review_comment = JStr ''bad''\<rparr>]\<rparr>)"
  by (simp add: PUT_review_def POST_review_def accepting_env_def example_store_def
        example_review_def js_lt_def js_gt_def num_def execute_def bind_error_def js_or_def)

theorem review_write_without_session_witness:
  "success (fst (PUT_review accepting_env example_store NoToken 7 example_review)) \<and>
   success (fst (POST_review accepting_env example_store (GoodToken 9) 4 example_review))"
  using review_write_without_session by (simp add: respond_def)

text \<open>
  What the validation of the two handlers does reject: every falsy rating (absent, null,
  false, 0, the empty string) and every rating that reads as a number below 1 or above 5,
  integer or fractional, given as a number or as a string. The answer is 400 and the store
  is left as it was.
\<close>

lemma review_rating_out_of_range:
  assumes "\<not> truthy (rb_rating b) \<or>
           (\<exists>x. ToNumber (StringToNumber e) (rb_rating b) = Some x \<and> (x < 1 \<or> 5 < x))"
  shows "status (fst (POST_review e st tok businessId b)) = 400 \<and>
         snd (POST_review e st tok businessId b) = st \<and>
         status (fst (PUT_review e st tok reviewId b)) = 400 \<and>
         snd (PUT_review e st tok reviewId b) = st"
  using assms
  by (auto simp: POST_review_def PUT_review_def js_lt_def js_gt_def respond_def)

text \<open>
  What it lets through: every truthy rating that reads as NaN, or as a number from 1 to 5
  (\<^verbatim>\<open>true\<close> reads as 1, and 2.5 is let through as it is).
\<close>

lemma review_rating_passes:
  assumes "truthy (rb_rating b)"
    and "ToNumber (StringToNumber e) (rb_rating b) = None \<or>
         (\<exists>x. ToNumber (StringToNumber e) (rb_rating b) = Some x \<and> 1 \<le> x \<and> x \<le> 5)"
  shows "\<not> (js_lt (StringToNumber e) (rb_rating b) 1 \<or> js_gt (StringToNumber e) (rb_rating b) 5)"
  using assms by (auto simp: js_lt_def js_gt_def)

text \<open>
  C7. For every review creation and update, a rating outside [1,5], non-numeric values
  included, is to be rejected with a validation error, no row being inserted or modified.
  The handlers check \<^verbatim>\<open>!rating\<close> and \<^verbatim>\<open>rating < 1 || rating > 5\<close>, and answer
  \<^verbatim>\<open>Rating must be between 1 and 5.\<close>; they miss the values that read as NaN, for which both
  comparisons are false. The string \<^verbatim>\<open>abc\<close> passes the check and is bound to the statement.
  Where the store takes it, the creation is answered 201 with the row inserted and the
  update of review 7 by its owner 200 with the row rewritten; where the store refuses it,
  the answer is 500. In no case is it the validation error.
\<close>

theorem review_rating_not_a_number:
  "POST_review accepting_env empty_store NoToken 3
     \<lparr>rb_userId = num 2, rb_rating = JStr ''abc'', rb_comment = JUndefined\<rparr>
   = (respond 201 True ''Review submitted successfully.'',
      empty_store\<lparr>business_reviews :=
        [\<lparr>review_id = 1, review_business_id = 3, review_user_id = num 2,
          review_rating = JStr ''abc'', review_comment = JNull\<rparr>]\<rparr>) \<and>
   PUT_review accepting_env example_store NoToken 7
     \<lparr>rb_userId = num 1, rb_rating = JStr ''abc'', rb_comment = JUndefined\<rparr>
   = (respond 200 True ''Review updated successfully.'',
      example_store\<lparr>business_reviews :=
        [\<lparr>review_id = 7, review_business_id = 3, review_user_id = num 1,
          review_rating = JStr ''abc'', review_comment = JNull\<rparr>]\<rparr>) \<and>
   POST_review strict_env empty_store NoToken 3
     \<lparr>rb_userId = num 2, rb_rating = JStr ''abc'', rb_comment = JUndefined\<rparr>
   = (respond 500 False ''Failed to submit review.'', empty_store) \<and>
   PUT_review strict_env example_store NoToken 7
     \<lparr>rb_userId = num 1, rb_rating = JStr ''abc'', rb_comment = JUndefined\<rparr>
   = (respond 500 False ''Failed to update review.'', example_store)"
  by (simp add: POST_review_def PUT_review_def strict_env_def accepting_env_def empty_store_def
        example_store_def js_lt_def js_gt_def num_def execute_def bind_error_def js_or_def)

theorem review_rating_not_a_number_witness:
  "status (fst (POST_review accepting_env empty_store NoToken 3
     \<lparr>rb_userId = num 2, rb_rating = JStr ''abc'', rb_comment = JUndefined\<rparr>)) = 201 \<and>
   status (fst (PUT_review accepting_env example_store NoToken 7
     \<lparr>rb_userId = num 1, rb_rating = JStr ''abc'', rb_comment = JUndefined\<rparr>)) = 200 \<and>
   status (fst (POST_review strict_env empty_store NoToken 3
     \<lparr>rb_userId = num 2, rb_rating = JStr ''abc'', rb_comment = JUndefined\<rparr>)) = 500 \<and>
   status (fst (PUT_review strict_env example_store NoToken 7
     \<lparr>rb_userId = num 1, rb_rating = JStr ''abc'', rb_comment = JUndefined\<rparr>)) = 500"
  using review_rating_not_a_number by (simp add: respond_def)

section \<open>Follows\<close>

text \<open>
  C9. For all user ids: a request to follow oneself is always rejected (status 400); a
  request to follow a user one already follows is always rejected with the conflict 409; a
  request to unfollow a user one does not follow (the DELETE runs and affects no row) is
  answered 404; in all three cases the follow edges are unchanged, as is the rest of the
  store.
\<close>

theorem follow_rejections:
  assumes "tok = GoodToken followerId"
  shows "(status (fst (POST_follow e st tok (Some followerId))) = 400 \<and>
          success (fst (POST_follow e st tok (Some followerId))) = False \<and>
          snd (POST_follow e st tok (Some followerId)) = st) \<and>
         ((followerId, followedId) \<in> set (follows st) \<and> followerId \<noteq> followedId \<and>
          0 < followedId
            \<longrightarrow> POST_follow e st tok (Some followedId)
                  = (respond 409 False ''You are already following this user.'', st)) \<and>
         ((followerId, stranger) \<notin> set (follows st) \<and>
          refuses e DELETE_follows [num followerId, num stranger] = None
            \<longrightarrow> DELETE_follow e st tok stranger
                  = (respond 404 False ''You are not following this user or user not found.'',
                     st))"
  using assms
  by (auto simp: POST_follow_def DELETE_follow_def respond_def execute_unique_def execute_def
                 bind_error_def follows_unique_def ER_DUP_ENTRY_def num_def filter_empty_conv
           split: option.splits)

text \<open>User 1 follows user 2 only: following 1, following 2 again, unfollowing 3.\<close>

theorem follow_rejections_witness:
  "status (fst (POST_follow accepting_env example_store (GoodToken 1) (Some 1))) = 400 \<and>
   success (fst (POST_follow accepting_env example_store (GoodToken 1) (Some 1))) = False \<and>
   snd (POST_follow accepting_env example_store (GoodToken 1) (Some 1)) = example_store \<and>
   POST_follow accepting_env example_store (GoodToken 1) (Some 2)
     = (respond 409 False ''You are already following this user.'', example_store) \<and>
   DELETE_follow accepting_env example_store (GoodToken 1) 3
     = (respond 404 False ''You are not following this user or user not found.'', example_store)"
  using follow_rejections [of "GoodToken 1" 1 accepting_env example_store 2 3]
  by (simp add: example_store_def accepting_env_def)

section \<open>Profile update\<close>

text \<open>The SET clause always names \<^verbatim>\<open>avatar_url\<close>; the other two columns only when present.\<close>

lemma setClauses_avatar_always: "(Avatar_url, final) \<in> set (setClauses b final)"
  by (simp add: setClauses_def)

lemma setClauses_display_name:
  "(Display_name, v) \<in> set (setClauses b final) \<longleftrightarrow> v = pb_name b \<and> pb_name b \<noteq> JUndefined"
  by (auto simp: setClauses_def)

lemma setClauses_bio:
  "(Bio, v) \<in> set (setClauses b final) \<longleftrightarrow> v = pb_bio b \<and> pb_bio b \<noteq> JUndefined"
  by (auto simp: setClauses_def)

text \<open>The empty string, null and a malformed data URI clear the avatar.\<close>

lemma finalAvatarUrl_cleared:
  "finalAvatarUrl e u (JStr []) = Inr JNull"
  "finalAvatarUrl e u JNull = Inr JNull"
  "startsWith s ''data:image'' \<Longrightarrow> match_data_uri s = None \<Longrightarrow>
   finalAvatarUrl e u (JStr s) = Inr JNull"
  by (auto simp: finalAvatarUrl_def startsWith_def)

text \<open>
  When the avatar parameter is defined and the store accepts the statement, the row of the
  user gets the avatar computed, and the name and the bio of the body where it has them.
\<close>

lemma profile_update_assigns:
  assumes "finalAvatarUrl e u (pb_avatar_url b) = Inr final" and "final \<noteq> JUndefined"
    and "refuses e UPDATE_users (map snd (setClauses b final) @ [num u]) = None"
  shows "PUT_profile e st (GoodToken u) u b
         = (respond 200 True ''Profile updated successfully.'',
            st\<lparr>users := map (\<lambda>r. if user_id r = u
                     then r\<lparr>display_name :=
                              (if pb_name b = JUndefined then display_name r else pb_name b),
                            bio := (if pb_bio b = JUndefined then bio r else pb_bio b),
                            avatar_url := final\<rparr>
                     else r) (users st)\<rparr>)"
  using assms
  by (auto simp: PUT_profile_def setClauses_def execute_def bind_error_def num_def Let_def)

text \<open>
  A body without \<^verbatim>\<open>avatar_url\<close> binds \<^verbatim>\<open>undefined\<close> to the statement, which \<^verbatim>\<open>execute\<close>
  refuses before anything is sent.
\<close>

lemma profile_update_omitted_avatar:
  assumes "pb_avatar_url b = JUndefined"
  shows "PUT_profile e st (GoodToken u) u b = (respond 500 False ''Failed to update profile.'', st)"
  using assms
  by (simp add: PUT_profile_def finalAvatarUrl_def setClauses_def execute_def bind_error_def)

text \<open>
  C10. The profile update always puts \<^verbatim>\<open>avatar_url\<close> into its UPDATE, so that a request
  without \<^verbatim>\<open>avatar_url\<close> is to overwrite the stored avatar, while name and bio are updated
  when present. For the empty string and a malformed data URI the avatar is cleared
  (\<open>finalAvatarUrl_cleared\<close>, \<open>profile_update_assigns\<close>). For a request that omits the field
  the parameter pushed is \<^verbatim>\<open>undefined\<close>: the statement throws, the handler answers 500, and
  neither the avatar nor the name the request carries is written.
\<close>

theorem profile_update_without_avatar:
  "PUT_profile accepting_env example_store (GoodToken 1) 1 example_profile
   = (respond 500 False ''Failed to update profile.'', example_store)"
  by (simp add: PUT_profile_def finalAvatarUrl_def setClauses_def execute_def bind_error_def
        example_profile_def)

theorem profile_update_without_avatar_witness:
  "status (fst (PUT_profile accepting_env example_store (GoodToken 1) 1 example_profile)) = 500 \<and>
   users (snd (PUT_profile accepting_env example_store (GoodToken 1) 1 example_profile))
   = users example_store"
  using profile_update_without_avatar by (simp add: respond_def)

end
